theory Spec2Isabelle
  imports Main
begin

section \<open>Values exchanged between the components\<close>

text \<open>
  The JavaScript values that travel between the resolver, the orchestrator and the
  tools: an absent property or argument is \<open>JUndefined\<close>, an object is the list of its
  own properties in insertion order. Numbers are the integers the code produces
  (\<open>parseInt\<close> of a digit run, the portfolio percentages).
\<close>

datatype jval =
    JUndefined
  | JNull
  | JBool bool
  | JNum int
  | JStr string
  | JArr "jval list"
  | JObj "(string \<times> jval) list"

text \<open>A thrown \<open>Error\<close> object, read through its \<open>message\<close>.\<close>

datatype error = Error (message: string)

text \<open>
  The text \<open>JSON.stringify\<close> yields for a value. The serialiser belongs to the platform
  and is kept symbolic: an event payload records which value was serialised.
\<close>

datatype json_text = JSON_stringify jval

text \<open>JavaScript truthiness, as \<open>if (v)\<close>, \<open>v || d\<close> and \<open>v && w\<close> test it.\<close>

fun truthy :: "jval \<Rightarrow> bool" where
  "truthy JUndefined = False"
| "truthy JNull = False"
| "truthy (JBool b) = b"
| "truthy (JNum n) = (n \<noteq> 0)"
| "truthy (JStr s) = (s \<noteq> [])"
| "truthy (JArr xs) = True"
| "truthy (JObj kvs) = True"

text \<open>
  \<open>Object.keys(v).length\<close> for a value that passed a truthiness test: the number of own
  enumerable properties (the indices of a string or an array, the keys of an object).
\<close>

fun Object_keys_length :: "jval \<Rightarrow> nat" where
  "Object_keys_length (JStr s) = length s"
| "Object_keys_length (JArr xs) = length xs"
| "Object_keys_length (JObj kvs) = length kvs"
| "Object_keys_length v = 0"

text \<open>
  Reading a named property \<open>v.k\<close> (\<open>k\<close> not an index and not \<open>length\<close>): a
  \<open>TypeError\<close> on \<open>undefined\<close> and \<open>null\<close>, the property of an object, \<open>undefined\<close>
  on every other value.
\<close>

fun get_prop :: "jval \<Rightarrow> string \<Rightarrow> error + jval" where
  "get_prop JUndefined k =
     Inl (Error (''Cannot read properties of undefined (reading '' @ [CHR 0x27] @ k @ [CHR 0x27] @ '')''))"
| "get_prop JNull k =
     Inl (Error (''Cannot read properties of null (reading '' @ [CHR 0x27] @ k @ [CHR 0x27] @ '')''))"
| "get_prop (JObj kvs) k = Inr (case map_of kvs k of Some v \<Rightarrow> v | None \<Rightarrow> JUndefined)"
| "get_prop v k = Inr JUndefined"

subsection \<open>Strings\<close>

text \<open>
  Prompts are strings of code units below 256. \<open>toLowerCase\<close> maps the ASCII capitals and
  the Latin-1 capitals (U+00C0 to U+00DE without the multiplication sign) to their small
  letters and leaves every other code unit alone; on those
  capitals adding 32 is setting the bit of weight 32.
\<close>

definition lower_char :: "char \<Rightarrow> char" where
  "lower_char c =
     (let n = (of_char c :: nat)
      in if (65 \<le> n \<and> n \<le> 90) \<or> (192 \<le> n \<and> n \<le> 222 \<and> n \<noteq> 215)
         then (case c of Char b0 b1 b2 b3 b4 b5 b6 b7 \<Rightarrow> Char b0 b1 b2 b3 b4 True b6 b7)
         else c)"

definition toLowerCase :: "string \<Rightarrow> string" where
  "toLowerCase s = map lower_char s"

fun startsWith :: "string \<Rightarrow> string \<Rightarrow> bool" where
  "startsWith s [] = True"
| "startsWith [] (d # ds) = False"
| "startsWith (c # cs) (d # ds) = (c = d \<and> startsWith cs ds)"

text \<open>\<open>s.includes(t)\<close>: \<open>t\<close> occurs in \<open>s\<close> as a contiguous run.\<close>

fun str_includes :: "string \<Rightarrow> string \<Rightarrow> bool" where
  "str_includes [] t = (t = [])"
| "str_includes (c # cs) t = (startsWith (c # cs) t \<or> str_includes cs t)"

text \<open>
  The character classes of the two regular expressions of the demo resolver, on code
  units below 256: \<open>\d\<close>, \<open>\s\<close> and the line terminators that \<open>.\<close> refuses.
\<close>

definition is_digit :: "char \<Rightarrow> bool" where
  "is_digit c = (let n = (of_char c :: nat) in 48 \<le> n \<and> n \<le> 57)"

definition is_space :: "char \<Rightarrow> bool" where
  "is_space c = (let n = (of_char c :: nat) in (9 \<le> n \<and> n \<le> 13) \<or> n = 32 \<or> n = 160)"

definition is_line_terminator :: "char \<Rightarrow> bool" where
  "is_line_terminator c = (let n = (of_char c :: nat) in n = 10 \<or> n = 13)"

text \<open>\<open>parseInt\<close> on a run of decimal digits.\<close>

definition parseInt :: "string \<Rightarrow> int" where
  "parseInt ds = foldl (\<lambda>acc c. 10 * acc + (int (of_char c) - 48)) 0 ds"

text \<open>\<open>s.split(' ')\<close>: the pieces between single spaces, empty pieces included.\<close>

fun split_space :: "string \<Rightarrow> string list" where
  "split_space [] = [[]]"
| "split_space (c # cs) =
     (if c = CHR '' '' then [] # split_space cs
      else (case split_space cs of [] \<Rightarrow> [[c]] | w # ws \<Rightarrow> (c # w) # ws))"

text \<open>\<open>xs.join(', ')\<close> on strings.\<close>

fun join_comma :: "string list \<Rightarrow> string" where
  "join_comma [] = []"
| "join_comma [x] = x"
| "join_comma (x # y # ys) = x @ '', '' @ join_comma (y # ys)"

section \<open>Tools, requests and the environment of a run\<close>

text \<open>
  A tool-call request \<open>{name, args}\<close>; a request pushed without an \<open>args\<close> property has
  \<open>call_args = JUndefined\<close>.
\<close>

record tool_call =
  call_name :: string
  call_args :: jval

text \<open>
  A registered tool. Its executable runs against the application state \<open>'s\<close> it closes
  over: it returns a value or throws, and leaves the state it has reached either way.
\<close>

record 's tool =
  tool_name :: string
  tool_description :: string
  execute :: "jval \<Rightarrow> 's \<Rightarrow> (error + jval) \<times> 's"

text \<open>
  What \<open>fetch\<close> gives back. A response is read through \<open>ok\<close>, \<open>status\<close>, \<open>statusText\<close>,
  \<open>text()\<close> and \<open>json()\<close>; \<open>json()\<close> rejects on a body that is not JSON and otherwise
  yields the parsed body, of which the model keeps the part \<open>'d\<close> the caller reads.
\<close>

record 'd response =
  ok :: bool
  status :: string
  statusText :: string
  body_text :: string
  body_json :: "error + 'd"

datatype 'd fetch_outcome = Fetch_rejected error | Fetch_resolved "'d response"

text \<open>
  One entry of \<open>message.tool_calls\<close>: its \<open>type\<close> and, when present, its \<open>function\<close>
  with \<open>name\<close> and the JSON text \<open>arguments\<close> (absent or a string).
\<close>

record raw_function =
  fn_name :: string
  fn_arguments :: "string option"

record raw_tool_call =
  tc_type :: string
  tc_function :: "raw_function option"

text \<open>
  Everything a run takes from outside the program: the outcome of the completion request
  that asks for tool calls (its parsed body read at
  \<open>data.choices?.[0]?.message?.tool_calls\<close>, \<open>None\<close> when that chain is undefined), the
  outcome of the completion request that asks for the response text (its parsed body read
  at \<open>choices[0].message\<close>, \<open>None\<close> when there is no such message, and there at
  \<open>content\<close>), the platform's \<open>JSON.parse\<close>, the identifiers the orchestrator builds from
  the clock and \<open>Math.random\<close> (one pair per position of the request list), the two
  renderings of the current time the demo application stores, and the floating-point
  arithmetic of the demo's retirement projection (from the allocation, the years and the
  monthly contribution to the projection object), which is not modelled further.
\<close>

record env =
  fetch_tool_calls :: "(raw_tool_call list option) fetch_outcome"
  fetch_response_text :: "(jval option) fetch_outcome"
  JSON_parse :: "string \<Rightarrow> error + jval"
  threadId :: string
  runId :: string
  toolCallId :: "nat \<Rightarrow> string"
  messageId :: "nat \<Rightarrow> string"
  responseMessageId :: string
  toISOString :: string
  toLocaleTimeString :: string
  projectionData :: "jval \<Rightarrow> jval \<Rightarrow> jval \<Rightarrow> jval"

section \<open>The intent resolver (class LLMClient)\<close>

record LLMClient =
  useRealLLM :: bool
  apiKey :: "string option"

definition new_LLMClient :: LLMClient where
  "new_LLMClient = \<lparr>useRealLLM = False, apiKey = None\<rparr>"

definition setApiKey :: "string option \<Rightarrow> LLMClient \<Rightarrow> LLMClient" where
  "setApiKey k llm = llm\<lparr>apiKey := k, useRealLLM := True\<rparr>"

definition clearApiKey :: "LLMClient \<Rightarrow> LLMClient" where
  "clearApiKey llm = llm\<lparr>apiKey := None, useRealLLM := False\<rparr>"

text \<open>\<open>this.useRealLLM && this.apiKey\<close>: the remote strategy is configured.\<close>

definition remote_configured :: "LLMClient \<Rightarrow> bool" where
  "remote_configured llm =
     (useRealLLM llm \<and> (case apiKey llm of None \<Rightarrow> False | Some k \<Rightarrow> k \<noteq> []))"

subsection \<open>Local strategy of the starter kit\<close>

definition getToolCallsFromKeywords :: "string \<Rightarrow> tool_call list" where
  "getToolCallsFromKeywords prompt =
     (let lowercasePrompt = toLowerCase prompt
      in (if str_includes lowercasePrompt ''show'' \<or> str_includes lowercasePrompt ''get'' \<or>
             str_includes lowercasePrompt ''display'' \<or> str_includes lowercasePrompt ''view''
          then [\<lparr>call_name = ''getAppData'', call_args = JObj []\<rparr>] else [])
       @ (if str_includes lowercasePrompt ''refresh'' \<or> str_includes lowercasePrompt ''reload'' \<or>
             str_includes lowercasePrompt ''update'' \<or> str_includes lowercasePrompt ''fetch''
          then [\<lparr>call_name = ''refreshData'', call_args = JObj []\<rparr>] else [])
       @ (if str_includes lowercasePrompt ''analyze'' \<or> str_includes lowercasePrompt ''analysis'' \<or>
             str_includes lowercasePrompt ''examine'' \<or> str_includes lowercasePrompt ''insight''
          then [\<lparr>call_name = ''analyzeData'', call_args = JObj []\<rparr>] else [])
       @ (if str_includes lowercasePrompt ''report'' \<or> str_includes lowercasePrompt ''generate'' \<or>
             str_includes lowercasePrompt ''create'' \<or> str_includes lowercasePrompt ''export''
          then [\<lparr>call_name = ''generateReport'', call_args = JObj []\<rparr>] else []))"

subsection \<open>Local strategy of the demo\<close>

text \<open>
  \<open>lowerPrompt.match(/(\d+)\s*years?/)\<close>: the first group of the leftmost match. A match
  starts at a digit, takes the whole run of digits, skips white space and meets \<open>year\<close>;
  giving back digits or white space never helps, since \<open>year\<close> starts with neither.
\<close>

fun match_years :: "string \<Rightarrow> string option" where
  "match_years [] = None"
| "match_years (c # cs) =
     (let ds = takeWhile is_digit (c # cs);
          r = dropWhile is_space (dropWhile is_digit (c # cs))
      in if ds \<noteq> [] \<and> startsWith r ''year'' then Some ds else match_years cs)"

text \<open>\<open>lowerPrompt.match(/\$?(\d+)\s*(?:per month|monthly)/)\<close>, likewise.\<close>

fun match_monthly :: "string \<Rightarrow> string option" where
  "match_monthly [] = None"
| "match_monthly (c # cs) =
     (let s = (if c = CHR ''$'' then cs else c # cs);
          ds = takeWhile is_digit s;
          r = dropWhile is_space (dropWhile is_digit s)
      in if ds \<noteq> [] \<and> (startsWith r ''per month'' \<or> startsWith r ''monthly'')
         then Some ds else match_monthly cs)"

text \<open>
  The three strategy patterns carry the flag \<open>i\<close> and are tested on the prompt as typed.
  Their letters are ASCII, and a code unit below 256 matches such a letter without regard
  to case exactly when \<open>toLowerCase\<close> sends it to that letter; so the patterns are read
  on the lower-cased prompt. \<open>word.?risk\<close> is \<open>word\<close>, at most one code unit that is no
  line terminator, then \<open>risk\<close>.
\<close>

fun word_risk :: "string \<Rightarrow> string \<Rightarrow> bool" where
  "word_risk w [] = False"
| "word_risk w (c # cs) =
     ((startsWith (c # cs) w \<and>
        (let r = drop (length w) (c # cs)
         in startsWith r ''risk'' \<or>
            (case r of [] \<Rightarrow> False
             | d # r' \<Rightarrow> \<not> is_line_terminator d \<and> startsWith r' ''risk'')))
      \<or> word_risk w cs)"

definition test_aggressive :: "string \<Rightarrow> bool" where
  "test_aggressive prompt =
     (let s = toLowerCase prompt
      in str_includes s ''aggressive'' \<or> str_includes s ''growth'' \<or> str_includes s ''risky'' \<or>
         word_risk ''high'' s)"

definition test_moderate :: "string \<Rightarrow> bool" where
  "test_moderate prompt =
     (let s = toLowerCase prompt
      in str_includes s ''moderate'' \<or> str_includes s ''balanced'' \<or> word_risk ''medium'' s)"

definition test_conservative :: "string \<Rightarrow> bool" where
  "test_conservative prompt =
     (let s = toLowerCase prompt
      in str_includes s ''conservative'' \<or> str_includes s ''safe'' \<or> word_risk ''low'' s \<or>
         str_includes s ''stable'')"

definition strategy_args :: "string \<Rightarrow> jval" where
  "strategy_args strategy = JObj [(''strategy'', JStr strategy)]"

definition getToolCallsFromKeywords_demo :: "string \<Rightarrow> tool_call list" where
  "getToolCallsFromKeywords_demo prompt =
     (let lowerPrompt = toLowerCase prompt
      in (if str_includes lowerPrompt ''show'' \<and>
             (str_includes lowerPrompt ''portfolio'' \<or> str_includes lowerPrompt ''allocation'')
          then [\<lparr>call_name = ''getPortfolio'', call_args = JUndefined\<rparr>] else [])
       @ (if str_includes lowerPrompt ''diversify'' \<or> str_includes lowerPrompt ''rebalance''
          then [\<lparr>call_name = ''getPortfolio'', call_args = JUndefined\<rparr>,
                \<lparr>call_name = ''rebalancePortfolio'', call_args = strategy_args
                   (if str_includes lowerPrompt ''aggressive'' \<or> str_includes lowerPrompt ''risky'' \<or>
                       str_includes lowerPrompt ''growth'' then ''aggressive''
                    else if str_includes lowerPrompt ''conservative'' \<or>
                       str_includes lowerPrompt ''safe'' \<or> str_includes lowerPrompt ''stable''
                    then ''conservative''
                    else ''moderate'')\<rparr>]
          else [])
       @ (if str_includes lowerPrompt ''make it more aggressive'' \<or>
             str_includes lowerPrompt ''increase risk''
          then [\<lparr>call_name = ''rebalancePortfolio'', call_args = strategy_args ''aggressive''\<rparr>]
          else [])
       @ (if str_includes lowerPrompt ''make it conservative'' \<or>
             str_includes lowerPrompt ''reduce risk''
          then [\<lparr>call_name = ''rebalancePortfolio'', call_args = strategy_args ''conservative''\<rparr>]
          else [])
       @ (if str_includes lowerPrompt ''retirement'' \<and>
             (str_includes lowerPrompt ''projection'' \<or> str_includes lowerPrompt ''plan'' \<or>
              str_includes lowerPrompt ''future'')
          then [\<lparr>call_name = ''getRetirementProjection'', call_args = JObj
                  ((case match_years lowerPrompt of None \<Rightarrow> []
                    | Some ds \<Rightarrow> [(''yearsToRetirement'', JNum (parseInt ds))])
                 @ (case match_monthly lowerPrompt of None \<Rightarrow> []
                    | Some ds \<Rightarrow> [(''monthlyContribution'', JNum (parseInt ds))]))\<rparr>]
          else [])
       @ (if (str_includes lowerPrompt ''analyze'' \<or> str_includes lowerPrompt ''review'') \<and>
             str_includes lowerPrompt ''portfolio''
          then [\<lparr>call_name = ''getPortfolio'', call_args = JUndefined\<rparr>] else [])
       @ (let command = str_includes lowerPrompt ''set'' \<or> str_includes lowerPrompt ''change'' \<or>
                        str_includes lowerPrompt ''switch''
          in if test_aggressive prompt \<and> command
             then [\<lparr>call_name = ''rebalancePortfolio'', call_args = strategy_args ''aggressive''\<rparr>]
             else if test_moderate prompt \<and> command
             then [\<lparr>call_name = ''rebalancePortfolio'', call_args = strategy_args ''moderate''\<rparr>]
             else if test_conservative prompt \<and> command
             then [\<lparr>call_name = ''rebalancePortfolio'', call_args = strategy_args ''conservative''\<rparr>]
             else []))"

subsection \<open>Remote strategy and its fallback\<close>

text \<open>
  The loop over \<open>message.tool_calls\<close>: an entry whose \<open>type\<close> is \<open>function\<close> is read at
  \<open>function.name\<close> and \<open>function.arguments\<close> (a \<open>TypeError\<close> when \<open>function\<close> is
  missing) and its arguments go through \<open>JSON.parse(arguments || '{}')\<close>, which may
  throw; any other entry is passed over.
\<close>

fun extract_tool_calls :: "env \<Rightarrow> raw_tool_call list \<Rightarrow> error + tool_call list" where
  "extract_tool_calls e [] = Inr []"
| "extract_tool_calls e (toolCall # rest) =
     (if tc_type toolCall = ''function'' then
        (case tc_function toolCall of
           None \<Rightarrow> Inl (Error (''Cannot read properties of undefined (reading ''
                               @ [CHR 0x27] @ ''name'' @ [CHR 0x27] @ '')''))
         | Some f \<Rightarrow>
             (case JSON_parse e
                     (case fn_arguments f of None \<Rightarrow> ''{}''
                      | Some a \<Rightarrow> if a = [] then ''{}'' else a) of
                Inl err \<Rightarrow> Inl err
              | Inr parsed \<Rightarrow>
                  (case extract_tool_calls e rest of
                     Inl err \<Rightarrow> Inl err
                   | Inr calls \<Rightarrow> Inr (\<lparr>call_name = fn_name f, call_args = parsed\<rparr> # calls))))
      else extract_tool_calls e rest)"


definition try_OpenAI_demo :: "env \<Rightarrow> error + tool_call list" where
  "try_OpenAI_demo e =
     (case fetch_tool_calls e of
        Fetch_rejected err \<Rightarrow> Inl err
      | Fetch_resolved response \<Rightarrow>
          if \<not> ok response then
            Inl (Error (''OpenAI API error: '' @ status response @ '' '' @ statusText response))
          else
            (case body_json response of
               Inl err \<Rightarrow> Inl err
             | Inr None \<Rightarrow> Inr []
             | Inr (Some tool_calls) \<Rightarrow> extract_tool_calls e tool_calls))"


definition getToolCallsFromOpenAI_demo :: "env \<Rightarrow> string \<Rightarrow> tool_call list" where
  "getToolCallsFromOpenAI_demo e prompt =
     (case try_OpenAI_demo e of
        Inr calls \<Rightarrow> calls
      | Inl err \<Rightarrow> getToolCallsFromKeywords_demo prompt)"


definition getToolCalls_demo :: "LLMClient \<Rightarrow> env \<Rightarrow> string \<Rightarrow> tool_call list" where
  "getToolCalls_demo llm e prompt =
     (if remote_configured llm then getToolCallsFromOpenAI_demo e prompt
      else getToolCallsFromKeywords_demo prompt)"

text \<open>
  \<open>LLMClient.generateIntelligentResponse\<close> of the starter kit: the templated sentence
  when the remote strategy is not configured or the request fails in any way (rejected,
  not \<open>ok\<close>, a body that is not JSON, no \<open>choices[0].message\<close>), and otherwise whatever
  value \<open>content\<close> holds.
\<close>

definition generateSimpleResponse_llm :: "tool_call list \<Rightarrow> string" where
  "generateSimpleResponse_llm toolCalls =
     (if toolCalls = [] then
        ''I understand your request, but I don't have the right tools to help with that at the moment.''
      else ''I've executed the following tools for you: '' @ join_comma (map call_name toolCalls)
           @ ''. The results are displayed in your application above.'')"

definition generateIntelligentResponse :: "LLMClient \<Rightarrow> env \<Rightarrow> string \<Rightarrow> tool_call list \<Rightarrow> jval" where
  "generateIntelligentResponse llm e originalPrompt toolCalls =
     (if \<not> remote_configured llm then JStr (generateSimpleResponse_llm toolCalls)
      else
        (case fetch_response_text e of
           Fetch_rejected err \<Rightarrow> JStr (generateSimpleResponse_llm toolCalls)
         | Fetch_resolved response \<Rightarrow>
             if ok response then
               (case body_json response of
                  Inl err \<Rightarrow> JStr (generateSimpleResponse_llm toolCalls)
                | Inr None \<Rightarrow> JStr (generateSimpleResponse_llm toolCalls)
                | Inr (Some content) \<Rightarrow> content)
             else JStr (generateSimpleResponse_llm toolCalls)))"

section \<open>Run events (AG-UI protocol)\<close>

text \<open>
  The event classes with the fields their constructors set, in the constructors' order;
  the creation timestamp every event also carries is left out. A \<open>RUN_ERROR\<close> event
  carries the thread and run identifiers when it is built by \<open>RunErrorEvent\<close> and none
  when it is the plain object the demo yields.
\<close>

datatype event =
    RunStartedEvent string string
  | RunFinishedEvent string string string
  | RunErrorEvent "string option" "string option" string string
  | TextMessageStartEvent string string
  | TextMessageContentEvent string string
  | TextMessageEndEvent string
  | ToolCallStartEvent string string string
  | ToolCallArgsEvent string json_text
  | ToolCallEndEvent string
  | ToolCallResultEvent string string json_text
  | CustomEvent string

section \<open>The run orchestrator of the starter kit (class AgentClient)\<close>

text \<open>
  The orchestrator reaches the resolver through \<open>this.llmClient\<close>: it reads
  \<open>useRealLLM\<close> and awaits \<open>getToolCalls\<close> and \<open>generateIntelligentResponse\<close>, each of
  which resolves or rejects. The model takes that object as a record of these three, so
  that a run is defined for every resolver, one that throws included;
  \<open>LLMClient_object\<close> is the object the constructor installs.
\<close>

record llm_object =
  obj_useRealLLM :: bool
  obj_getToolCalls :: "string \<Rightarrow> error + tool_call list"
  obj_generateIntelligentResponse :: "string \<Rightarrow> tool_call list \<Rightarrow> error + jval"


record 's AgentClient =
  tools :: "'s tool list"
  llmClient :: llm_object
  isProcessing :: bool

definition find_tool :: "'s tool list \<Rightarrow> string \<Rightarrow> 's tool option" where
  "find_tool ts n = List.find (\<lambda>t. tool_name t = n) ts"

text \<open>
  What the orchestrator has produced so far: the events yielded, the \<open>executedTools\<close>
  array, the application state the tools have reached, and, for the record only, every
  invocation of a tool's executable with the arguments it was given.
\<close>

record 's progress =
  events :: "event list"
  executedTools :: "(tool_call \<times> jval) list"
  invocations :: "(string \<times> jval) list"
  app :: 's

definition failure_payload :: "error \<Rightarrow> jval" where
  "failure_payload toolError = JObj [(''error'', JStr (message toolError)), (''success'', JBool False)]"

text \<open>One turn of the loop over the requests, for the request at position \<open>k\<close>.\<close>

definition tool_call_step :: "env \<Rightarrow> 's tool list \<Rightarrow> nat \<Rightarrow> tool_call \<Rightarrow> 's \<Rightarrow> 's progress" where
  "tool_call_step e ts k call s =
     (case find_tool ts (call_name call) of
        None \<Rightarrow> \<lparr>events = [], executedTools = [], invocations = [], app = s\<rparr>
      | Some tool \<Rightarrow>
          (let started =
                 ToolCallStartEvent (toolCallId e k) (call_name call) (messageId e k)
                 # (if truthy (call_args call) \<and> 0 < Object_keys_length (call_args call)
                    then [ToolCallArgsEvent (toolCallId e k) (JSON_stringify (call_args call))]
                    else []);
               given = (if truthy (call_args call) then call_args call else JObj [])
           in (case execute tool given s of
                 (Inr result, s') \<Rightarrow>
                   \<lparr>events = started @
                      [ToolCallEndEvent (toolCallId e k),
                       ToolCallResultEvent (messageId e k) (toolCallId e k) (JSON_stringify result)],
                    executedTools = [(call, result)],
                    invocations = [(tool_name tool, given)],
                    app = s'\<rparr>
               | (Inl toolError, s') \<Rightarrow>
                   \<lparr>events = started @
                      [ToolCallEndEvent (toolCallId e k),
                       ToolCallResultEvent (messageId e k) (toolCallId e k)
                         (JSON_stringify (failure_payload toolError))],
                    executedTools = [],
                    invocations = [(tool_name tool, given)],
                    app = s'\<rparr>)))"

fun tool_loop :: "env \<Rightarrow> 's tool list \<Rightarrow> nat \<Rightarrow> tool_call list \<Rightarrow> 's \<Rightarrow> 's progress" where
  "tool_loop e ts k [] s = \<lparr>events = [], executedTools = [], invocations = [], app = s\<rparr>"
| "tool_loop e ts k (call # rest) s =
     (let p = tool_call_step e ts k call s;
          q = tool_loop e ts (Suc k) rest (app p)
      in \<lparr>events = events p @ events q,
          executedTools = executedTools p @ executedTools q,
          invocations = invocations p @ invocations q,
          app = app q\<rparr>)"

definition generateSimpleResponse :: "(tool_call \<times> jval) list \<Rightarrow> string" where
  "generateSimpleResponse executed =
     (case executed of
        [t] \<Rightarrow> ''I've executed the '' @ call_name (fst t)
               @ '' tool for you. The results are displayed in your application above.''
      | _ \<Rightarrow> ''I've executed multiple tools for you: '' @ join_comma (map (call_name \<circ> fst) executed)
             @ ''. The results are displayed in your application above.'')"

definition generateNoToolsResponse :: "string \<Rightarrow> string" where
  "generateNoToolsResponse originalPrompt =
     ''I understand your request: '' @ [CHR 0x22] @ originalPrompt @ [CHR 0x22]
     @ '', but I don't have the specific tools needed to help with that right now. Try asking me to show data, refresh information, analyze results, or generate reports.''"

text \<open>
  The response streamed word by word: the first piece as it is, every later piece behind
  a space. The pause between two pieces is not modelled.
\<close>

definition word_chunks :: "string \<Rightarrow> string \<Rightarrow> event list" where
  "word_chunks mid response =
     (case split_space response of
        [] \<Rightarrow> []
      | w # ws \<Rightarrow> TextMessageContentEvent mid w
                  # map (\<lambda>v. TextMessageContentEvent mid (CHR '' '' # v)) ws)"

definition response_error_text :: string where
  "response_error_text =
     ''I encountered an error while generating my response, but the requested actions may have completed successfully.''"

text \<open>
  \<open>streamResponse\<close>. Its \<open>try\<close> can only throw before the first content event: when
  \<open>generateIntelligentResponse\<close> rejects, or when its value is no string and has no
  \<open>split\<close>. The \<open>catch\<close> then yields the fixed error text.
\<close>

definition streamResponse :: "llm_object \<Rightarrow> env \<Rightarrow> string \<Rightarrow> (tool_call \<times> jval) list \<Rightarrow> event list" where
  "streamResponse llm e originalPrompt executed =
     [TextMessageStartEvent (responseMessageId e) ''assistant'']
     @ (if executed \<noteq> [] then
          (if obj_useRealLLM llm then
             (case obj_generateIntelligentResponse llm originalPrompt (map fst executed) of
                Inr (JStr response) \<Rightarrow> word_chunks (responseMessageId e) response
              | _ \<Rightarrow> [TextMessageContentEvent (responseMessageId e) response_error_text])
           else [TextMessageContentEvent (responseMessageId e) (generateSimpleResponse executed)])
        else [TextMessageContentEvent (responseMessageId e) (generateNoToolsResponse originalPrompt)])
     @ [TextMessageEndEvent (responseMessageId e)]"

text \<open>
  A fully drained call of \<open>processPrompt\<close>: its events in order, the invocations it
  caused, the application state and the orchestrator it leaves.
\<close>

record 's run =
  run_events :: "event list"
  run_invocations :: "(string \<times> jval) list"
  run_app :: 's
  run_agent :: "'s AgentClient"

definition busy_text :: string where
  "busy_text = ''Agent is already processing a request. Please wait.''"

definition processPrompt :: "env \<Rightarrow> 's AgentClient \<Rightarrow> string \<Rightarrow> 's \<Rightarrow> 's run" where
  "processPrompt e agent prompt s =
     (if isProcessing agent then
        \<lparr>run_events = [CustomEvent busy_text], run_invocations = [], run_app = s, run_agent = agent\<rparr>
      else
        (case obj_getToolCalls (llmClient agent) prompt of
           Inl err \<Rightarrow>
             \<lparr>run_events =
                [RunStartedEvent (threadId e) (runId e),
                 RunErrorEvent (Some (threadId e)) (Some (runId e)) (message err) ''PROCESSING_ERROR'',
                 RunFinishedEvent (threadId e) (runId e) ''error''],
              run_invocations = [], run_app = s,
              run_agent = agent\<lparr>isProcessing := False\<rparr>\<rparr>
         | Inr toolCalls \<Rightarrow>
             (let p = tool_loop e (tools agent) 0 toolCalls s
              in \<lparr>run_events =
                    [RunStartedEvent (threadId e) (runId e)]
                    @ events p
                    @ streamResponse (llmClient agent) e prompt (executedTools p)
                    @ [RunFinishedEvent (threadId e) (runId e) ''completed''],
                  run_invocations = invocations p, run_app = app p,
                  run_agent = agent\<lparr>isProcessing := False\<rparr>\<rparr>)))"

section \<open>The run orchestrator of the demo (class AgentClient of the demo)\<close>

text \<open>
  The demo's orchestrator holds the tools and the resolver; it has no other field. Of the
  resolver it reads \<open>useRealLLM\<close> and awaits \<open>getToolCalls\<close>; the demo's \<open>LLMClient\<close>
  has no \<open>generateIntelligentResponse\<close>, which in the demo is a method of the
  orchestrator itself.
\<close>

record 's AgentClient_demo =
  tools_demo :: "'s tool list"
  llmClient_demo :: llm_object

definition LLMClient_object_demo :: "LLMClient \<Rightarrow> env \<Rightarrow> llm_object" where
  "LLMClient_object_demo llm e =
     \<lparr>obj_useRealLLM = useRealLLM llm,
      obj_getToolCalls = (\<lambda>prompt. Inr (getToolCalls_demo llm e prompt)),
      obj_generateIntelligentResponse =
        (\<lambda>prompt toolCalls. Inl (Error ''generateIntelligentResponse is not a function''))\<rparr>"

text \<open>
  Progress of the demo's \<open>try\<close> block: besides the events, the invocations and the
  application state, the error that left the block, if one did.
\<close>

record 's progress_demo =
  events_demo :: "event list"
  invocations_demo :: "(string \<times> jval) list"
  app_demo :: 's
  thrown :: "error option"

text \<open>
  One turn of the demo's loop. The executable is awaited with no handler around it: when
  it throws, the turn ends after the events already yielded.
\<close>

definition tool_call_step_demo ::
    "env \<Rightarrow> 's tool list \<Rightarrow> nat \<Rightarrow> tool_call \<Rightarrow> 's \<Rightarrow> 's progress_demo" where
  "tool_call_step_demo e ts k call s =
     (case find_tool ts (call_name call) of
        None \<Rightarrow> \<lparr>events_demo = [], invocations_demo = [], app_demo = s, thrown = None\<rparr>
      | Some tool \<Rightarrow>
          (let started =
                 ToolCallStartEvent (toolCallId e k) (call_name call) (messageId e k)
                 # (if truthy (call_args call)
                    then [ToolCallArgsEvent (toolCallId e k) (JSON_stringify (call_args call))]
                    else [])
           in (case execute tool (call_args call) s of
                 (Inr result, s') \<Rightarrow>
                   \<lparr>events_demo = started @
                      [ToolCallEndEvent (toolCallId e k),
                       ToolCallResultEvent (messageId e k) (toolCallId e k) (JSON_stringify result)],
                    invocations_demo = [(tool_name tool, call_args call)],
                    app_demo = s', thrown = None\<rparr>
               | (Inl err, s') \<Rightarrow>
                   \<lparr>events_demo = started,
                    invocations_demo = [(tool_name tool, call_args call)],
                    app_demo = s', thrown = Some err\<rparr>)))"

fun tool_loop_demo ::
    "env \<Rightarrow> 's tool list \<Rightarrow> nat \<Rightarrow> tool_call list \<Rightarrow> 's \<Rightarrow> 's progress_demo" where
  "tool_loop_demo e ts k [] s =
     \<lparr>events_demo = [], invocations_demo = [], app_demo = s, thrown = None\<rparr>"
| "tool_loop_demo e ts k (call # rest) s =
     (let p = tool_call_step_demo e ts k call s
      in (case thrown p of
            Some err \<Rightarrow> p
          | None \<Rightarrow>
              (let q = tool_loop_demo e ts (Suc k) rest (app_demo p)
               in \<lparr>events_demo = events_demo p @ events_demo q,
                   invocations_demo = invocations_demo p @ invocations_demo q,
                   app_demo = app_demo q, thrown = thrown q\<rparr>)))"

text \<open>
  \<open>AgentClient.generateIntelligentResponse\<close> of the demo starts by executing every
  request's tool again to collect results for the completion request. The whole method
  is one \<open>try\<close>: a tool that throws here, like a request that fails, gives the fixed
  sentence. \<open>gather\<close> is that first loop: the invocations it makes, the state it leaves
  and whether it ran to its end.
\<close>

fun gather :: "'s tool list \<Rightarrow> tool_call list \<Rightarrow> 's \<Rightarrow> (string \<times> jval) list \<times> 's \<times> bool" where
  "gather ts [] s = ([], s, True)"
| "gather ts (call # rest) s =
     (case find_tool ts (call_name call) of
        None \<Rightarrow> gather ts rest s
      | Some tool \<Rightarrow>
          (case execute tool (call_args call) s of
             (Inl err, s') \<Rightarrow> ([(tool_name tool, call_args call)], s', False)
           | (Inr result, s') \<Rightarrow>
               (case gather ts rest s' of
                  (ivs, s'', finished) \<Rightarrow> ((tool_name tool, call_args call) # ivs, s'', finished))))"

definition completed_text :: string where
  "completed_text = ''I've completed your request successfully.''"

definition generateIntelligentResponse_demo ::
    "env \<Rightarrow> 's tool list \<Rightarrow> tool_call list \<Rightarrow> 's \<Rightarrow> jval \<times> (string \<times> jval) list \<times> 's" where
  "generateIntelligentResponse_demo e ts toolCalls s =
     (case gather ts toolCalls s of
        (ivs, s', finished) \<Rightarrow>
          (if \<not> finished then JStr completed_text
           else
             (case fetch_response_text e of
                Fetch_rejected err \<Rightarrow> JStr completed_text
              | Fetch_resolved response \<Rightarrow>
                  if \<not> ok response then JStr completed_text
                  else
                    (case body_json response of
                       Inl err \<Rightarrow> JStr completed_text
                     | Inr None \<Rightarrow> JStr completed_text
                     | Inr (Some content) \<Rightarrow>
                         if truthy content then content else JStr completed_text)),
           ivs, s'))"

definition executed_text_demo :: "tool_call list \<Rightarrow> string" where
  "executed_text_demo toolCalls =
     ''I've executed the following tools for you: '' @ join_comma (map call_name toolCalls)
     @ ''. The results are displayed in your portfolio above.''"

definition no_tools_text_demo :: string where
  "no_tools_text_demo =
     ''I understand your request, but I don't have the specific tools needed to help with that right now.''"

text \<open>
  The response part of the demo's \<open>try\<close> block, entered when the loop has ended without a
  throw. With the remote strategy on it can itself throw, after the start of the text
  message: a response that is no string has no \<open>split\<close>.
\<close>

definition respond_demo ::
    "env \<Rightarrow> 's AgentClient_demo \<Rightarrow> tool_call list \<Rightarrow> 's \<Rightarrow> 's progress_demo" where
  "respond_demo e agent toolCalls s =
     (if toolCalls \<noteq> [] then
        (if obj_useRealLLM (llmClient_demo agent) then
           (case generateIntelligentResponse_demo e (tools_demo agent) toolCalls s of
              (JStr response, ivs, s') \<Rightarrow>
                \<lparr>events_demo =
                   [TextMessageStartEvent (responseMessageId e) ''assistant'']
                   @ word_chunks (responseMessageId e) response
                   @ [TextMessageEndEvent (responseMessageId e)],
                 invocations_demo = ivs, app_demo = s', thrown = None\<rparr>
            | (other, ivs, s') \<Rightarrow>
                \<lparr>events_demo = [TextMessageStartEvent (responseMessageId e) ''assistant''],
                 invocations_demo = ivs, app_demo = s',
                 thrown = Some (Error ''response.split is not a function'')\<rparr>)
         else
           \<lparr>events_demo =
              [TextMessageStartEvent (responseMessageId e) ''assistant'',
               TextMessageContentEvent (responseMessageId e) (executed_text_demo toolCalls),
               TextMessageEndEvent (responseMessageId e)],
            invocations_demo = [], app_demo = s, thrown = None\<rparr>)
      else
        \<lparr>events_demo =
           [TextMessageStartEvent (responseMessageId e) ''assistant'',
            TextMessageContentEvent (responseMessageId e) no_tools_text_demo,
            TextMessageEndEvent (responseMessageId e)],
         invocations_demo = [], app_demo = s, thrown = None\<rparr>)"

definition try_block_demo ::
    "env \<Rightarrow> 's AgentClient_demo \<Rightarrow> string \<Rightarrow> 's \<Rightarrow> 's progress_demo" where
  "try_block_demo e agent prompt s =
     (case obj_getToolCalls (llmClient_demo agent) prompt of
        Inl err \<Rightarrow> \<lparr>events_demo = [], invocations_demo = [], app_demo = s, thrown = Some err\<rparr>
      | Inr toolCalls \<Rightarrow>
          (let p = tool_loop_demo e (tools_demo agent) 0 toolCalls s
           in (case thrown p of
                 Some err \<Rightarrow> p
               | None \<Rightarrow>
                   (let q = respond_demo e agent toolCalls (app_demo p)
                    in \<lparr>events_demo = events_demo p @ events_demo q,
                        invocations_demo = invocations_demo p @ invocations_demo q,
                        app_demo = app_demo q, thrown = thrown q\<rparr>))))"

record 's run_demo =
  run_events_demo :: "event list"
  run_invocations_demo :: "(string \<times> jval) list"
  run_app_demo :: 's

definition processPrompt_demo ::
    "env \<Rightarrow> 's AgentClient_demo \<Rightarrow> string \<Rightarrow> 's \<Rightarrow> 's run_demo" where
  "processPrompt_demo e agent prompt s =
     (let p = try_block_demo e agent prompt s
      in \<lparr>run_events_demo =
            [RunStartedEvent (threadId e) (runId e)]
            @ events_demo p
            @ (case thrown p of
                 None \<Rightarrow> []
               | Some err \<Rightarrow> [RunErrorEvent None None (message err) ''EXECUTION_ERROR''])
            @ [RunFinishedEvent (threadId e) (runId e) ''completed''],
          run_invocations_demo = invocations_demo p,
          run_app_demo = app_demo p\<rparr>)"

section \<open>The tool registry (class WebMCPProvider)\<close>

text \<open>
  The registry is a \<open>Map\<close> from names to tools, kept here as the list of its values in
  insertion order: setting a name that is present replaces the entry where it stands.
\<close>

definition registerTool ::
    "string \<Rightarrow> string \<Rightarrow> (jval \<Rightarrow> 's \<Rightarrow> (error + jval) \<times> 's) \<Rightarrow> 's tool list \<Rightarrow> 's tool list" where
  "registerTool n d ex registry =
     (let entry = \<lparr>tool_name = n, tool_description = d, execute = ex\<rparr>
      in if find_tool registry n = None then registry @ [entry]
         else map (\<lambda>t. if tool_name t = n then entry else t) registry)"

definition getTools :: "'s tool list \<Rightarrow> 's tool list" where
  "getTools registry = registry"

section \<open>The demo application (class FidelityApp)\<close>

record portfolio =
  stocks :: int
  bonds :: int
  cash :: int

text \<open>
  An entry of \<open>portfolioHistory\<close>: the time text and the action, kept as the template
  that was filled (\<open>Rebalanced to ... strategy\<close>, \<open>Generated ...-year retirement
  projection\<close>) with the value that filled it. Rendering into the page is not modelled.
\<close>

datatype history_action = Rebalanced_to jval | Generated_projection jval

record FidelityApp =
  portfolio :: portfolio
  portfolioHistory :: "(string \<times> history_action) list"
  retirementProjection :: jval

definition new_FidelityApp :: FidelityApp where
  "new_FidelityApp =
     \<lparr>portfolio = \<lparr>stocks = 50, bonds = 30, cash = 20\<rparr>,
      portfolioHistory = [], retirementProjection = JNull\<rparr>"

definition allocation_json :: "portfolio \<Rightarrow> jval" where
  "allocation_json p =
     JObj [(''stocks'', JNum (stocks p)), (''bonds'', JNum (bonds p)), (''cash'', JNum (cash p))]"

definition calculateTotalValue :: "portfolio \<Rightarrow> int" where
  "calculateTotalValue p = 125000 + stocks p * 1000 + bonds p * 500"

definition getRiskLevel :: "portfolio \<Rightarrow> string" where
  "getRiskLevel p =
     (if stocks p \<ge> 70 then ''Aggressive''
      else if stocks p \<ge> 50 then ''Moderate''
      else ''Conservative'')"

definition addToHistory :: "env \<Rightarrow> history_action \<Rightarrow> FidelityApp \<Rightarrow> FidelityApp" where
  "addToHistory e action a =
     a\<lparr>portfolioHistory := portfolioHistory a @ [(toLocaleTimeString e, action)]\<rparr>"

definition getPortfolio_execute :: "env \<Rightarrow> jval \<Rightarrow> FidelityApp \<Rightarrow> (error + jval) \<times> FidelityApp" where
  "getPortfolio_execute e args a =
     (Inr (JObj [(''allocation'', allocation_json (portfolio a)),
                 (''totalValue'', JNum (calculateTotalValue (portfolio a))),
                 (''riskLevel'', JStr (getRiskLevel (portfolio a))),
                 (''lastUpdated'', JStr (toISOString e))]),
      a)"

text \<open>
  \<open>rebalancePortfolio\<close> reads \<open>args.strategy\<close> before it assigns anything, so called
  without an argument object it throws and leaves the application as it was.
\<close>

definition rebalancePortfolio_execute ::
    "env \<Rightarrow> jval \<Rightarrow> FidelityApp \<Rightarrow> (error + jval) \<times> FidelityApp" where
  "rebalancePortfolio_execute e args a =
     (case get_prop args ''strategy'' of
        Inl err \<Rightarrow> (Inl err, a)
      | Inr strategy \<Rightarrow>
          (let oldPortfolio = portfolio a;
               newPortfolio =
                 (if strategy = JStr ''aggressive'' then \<lparr>stocks = 70, bonds = 20, cash = 10\<rparr>
                  else if strategy = JStr ''moderate'' then \<lparr>stocks = 60, bonds = 30, cash = 10\<rparr>
                  else \<lparr>stocks = 40, bonds = 40, cash = 20\<rparr>);
               a' = addToHistory e (Rebalanced_to strategy) (a\<lparr>portfolio := newPortfolio\<rparr>)
           in (Inr (JObj [(''oldAllocation'', allocation_json oldPortfolio),
                          (''newAllocation'', allocation_json newPortfolio),
                          (''strategy'', strategy),
                          (''totalValue'', JNum (calculateTotalValue newPortfolio)),
                          (''riskLevel'', JStr (getRiskLevel newPortfolio))]),
               a')))"

definition getRetirementProjection_execute ::
    "env \<Rightarrow> jval \<Rightarrow> FidelityApp \<Rightarrow> (error + jval) \<times> FidelityApp" where
  "getRetirementProjection_execute e args a =
     (case get_prop args ''yearsToRetirement'' of
        Inl err \<Rightarrow> (Inl err, a)
      | Inr y \<Rightarrow>
          (case get_prop args ''monthlyContribution'' of
             Inl err \<Rightarrow> (Inl err, a)
           | Inr m \<Rightarrow>
               (let yearsToRetirement = (if truthy y then y else JNum 20);
                    monthlyContribution = (if truthy m then m else JNum 500);
                    data = projectionData e (allocation_json (portfolio a))
                             yearsToRetirement monthlyContribution;
                    a' = addToHistory e (Generated_projection yearsToRetirement)
                           (a\<lparr>retirementProjection := data\<rparr>)
                in (Inr data, a'))))"

definition registerWithWebMCP :: "env \<Rightarrow> FidelityApp tool list \<Rightarrow> FidelityApp tool list" where
  "registerWithWebMCP e registry =
     registerTool ''getRetirementProjection''
       ''Get retirement savings projection based on current portfolio''
       (getRetirementProjection_execute e)
       (registerTool ''rebalancePortfolio''
          ''Rebalance the portfolio based on a given strategy (conservative, moderate, aggressive)''
          (rebalancePortfolio_execute e)
          (registerTool ''getPortfolio''
             ''Get the current portfolio allocation and performance metrics''
             (getPortfolio_execute e)
             registry))"

text \<open>
  The demo page as it is wired on load: a fresh registry, the application's three tools,
  and an orchestrator over them whose resolver is the demo's \<open>LLMClient\<close>.
\<close>

definition demo_agent :: "LLMClient \<Rightarrow> env \<Rightarrow> FidelityApp AgentClient_demo" where
  "demo_agent llm e =
     \<lparr>tools_demo = getTools (registerWithWebMCP e []),
      llmClient_demo = LLMClient_object_demo llm e\<rparr>"

section \<open>Properties of runs and the inputs the evaluations use\<close>

text \<open>The allocation is a split of the whole portfolio.\<close>

definition balanced :: "portfolio \<Rightarrow> bool" where
  "balanced p = (stocks p + bonds p + cash p = 100)"




fun is_run_started :: "event \<Rightarrow> bool" where
  "is_run_started (RunStartedEvent t r) = True"
| "is_run_started ev = False"

fun is_run_finished :: "event \<Rightarrow> bool" where
  "is_run_finished (RunFinishedEvent t r res) = True"
| "is_run_finished ev = False"

fun is_run_error :: "event \<Rightarrow> bool" where
  "is_run_error (RunErrorEvent t r m c) = True"
| "is_run_error ev = False"

fun is_text_event :: "event \<Rightarrow> bool" where
  "is_text_event (TextMessageStartEvent mid role) = True"
| "is_text_event (TextMessageContentEvent mid delta) = True"
| "is_text_event (TextMessageEndEvent mid) = True"
| "is_text_event ev = False"

text \<open>The tool-call identifier an event carries, if it is one of the four tool-call events.\<close>

fun tool_call_id_of :: "event \<Rightarrow> string option" where
  "tool_call_id_of (ToolCallStartEvent tid n mid) = Some tid"
| "tool_call_id_of (ToolCallArgsEvent tid a) = Some tid"
| "tool_call_id_of (ToolCallEndEvent tid) = Some tid"
| "tool_call_id_of (ToolCallResultEvent mid tid r) = Some tid"
| "tool_call_id_of ev = None"


text \<open>
  The complete event sequence of the request at position \<open>k\<close>: started, the arguments
  when \<open>with_args\<close>, ended, and the result carrying the text \<open>r\<close>.
\<close>

definition call_events :: "env \<Rightarrow> nat \<Rightarrow> tool_call \<Rightarrow> bool \<Rightarrow> json_text \<Rightarrow> event list" where
  "call_events e k call with_args r =
     ToolCallStartEvent (toolCallId e k) (call_name call) (messageId e k)
     # (if with_args then [ToolCallArgsEvent (toolCallId e k) (JSON_stringify (call_args call))] else [])
     @ [ToolCallEndEvent (toolCallId e k), ToolCallResultEvent (messageId e k) (toolCallId e k) r]"

text \<open>The request as the starter kit hands it to the executable: \<open>call.args || {}\<close>.\<close>

definition given_args :: "tool_call \<Rightarrow> jval" where
  "given_args call = (if truthy (call_args call) then call_args call else JObj [])"

text \<open>
  An environment with no network: every request is rejected. Identifiers are distinct
  from one position to the next. In place of the projection arithmetic stands a function
  that hands back the years and the monthly contribution it was given.
\<close>

definition env_offline :: env where
  "env_offline =
     \<lparr>fetch_tool_calls = Fetch_rejected (Error ''Failed to fetch''),
      fetch_response_text = Fetch_rejected (Error ''Failed to fetch''),
      JSON_parse = (\<lambda>s. if s = ''{}'' then Inr (JObj []) else Inl (Error ''Unexpected token'')),
      threadId = ''thread_1700000000000'', runId = ''run_1700000000000'',
      toolCallId = (\<lambda>k. ''tool_1700000000000_'' @ replicate (Suc k) (CHR ''a'')),
      messageId = (\<lambda>k. ''msg_1700000000000_'' @ replicate (Suc k) (CHR ''b'')),
      responseMessageId = ''response_1700000000000'',
      toISOString = ''2023-11-14T22:13:20.000Z'',
      toLocaleTimeString = ''10:13:20 PM'',
      projectionData = (\<lambda>allocation y m. JObj [(''yearsToRetirement'', y), (''monthlyContribution'', m)])\<rparr>"

definition llm_with_key :: LLMClient where
  "llm_with_key = setApiKey (Some ''sk-test'') new_LLMClient"

text \<open>
  An environment whose completion service answers with one call of \<open>rebalancePortfolio\<close>
  carrying the given \<open>arguments\<close> text, and with a sentence when asked for the response.
  \<open>JSON.parse\<close> is given on the three texts that occur.
\<close>

definition aggressive_arguments :: string where
  "aggressive_arguments =
     ''{'' @ [CHR 0x22] @ ''strategy'' @ [CHR 0x22] @ '':'' @ [CHR 0x22] @ ''aggressive'' @ [CHR 0x22] @ ''}''"

definition env_remote :: "string \<Rightarrow> env" where
  "env_remote arguments =
     env_offline
       \<lparr>fetch_tool_calls := Fetch_resolved
          \<lparr>ok = True, status = ''200'', statusText = ''OK'', body_text = ''{...}'',
           body_json = Inr (Some [\<lparr>tc_type = ''function'',
                                   tc_function = Some \<lparr>fn_name = ''rebalancePortfolio'',
                                                       fn_arguments = Some arguments\<rparr>\<rparr>])\<rparr>,
        fetch_response_text := Fetch_resolved
          \<lparr>ok = True, status = ''200'', statusText = ''OK'', body_text = ''{...}'',
           body_json = Inr (Some (JStr ''Your portfolio is now aggressive.''))\<rparr>,
        JSON_parse := (\<lambda>s. if s = ''{}'' then Inr (JObj [])
                           else if s = ''null'' then Inr JNull
                           else if s = aggressive_arguments then Inr (strategy_args ''aggressive'')
                           else Inl (Error ''Unexpected token''))\<rparr>"

text \<open>
  A registry over a counter with a tool that always throws and a tool that counts, a
  resolver that gives a fixed answer, and the two orchestrators over them.
\<close>

definition failing_registry :: "nat tool list" where
  "failing_registry =
     registerTool ''increment'' ''Add one to the counter''
       (\<lambda>args n. (Inr (JNum (int (Suc n))), Suc n))
       (registerTool ''alwaysFail'' ''Always throws''
          (\<lambda>args n. (Inl (Error ''boom''), n)) [])"

definition fixed_resolver :: "error + tool_call list \<Rightarrow> llm_object" where
  "fixed_resolver answer =
     \<lparr>obj_useRealLLM = False,
      obj_getToolCalls = (\<lambda>prompt. answer),
      obj_generateIntelligentResponse =
        (\<lambda>prompt toolCalls. Inr (JStr (generateSimpleResponse_llm toolCalls)))\<rparr>"

definition fail_then_increment :: "tool_call list" where
  "fail_then_increment =
     [\<lparr>call_name = ''alwaysFail'', call_args = JObj []\<rparr>,
      \<lparr>call_name = ''increment'', call_args = JObj [(''by'', JNum 1)]\<rparr>]"

definition kit_agent :: "llm_object \<Rightarrow> nat AgentClient" where
  "kit_agent llm = \<lparr>tools = getTools failing_registry, llmClient = llm, isProcessing = False\<rparr>"

definition demo_agent_over :: "llm_object \<Rightarrow> nat AgentClient_demo" where
  "demo_agent_over llm = \<lparr>tools_demo = getTools failing_registry, llmClient_demo = llm\<rparr>"

section \<open>Facts about the model\<close>

subsection \<open>Lists and lookups\<close>


lemma filter_none: "(\<And>x. x \<in> set xs \<Longrightarrow> \<not> P x) \<Longrightarrow> filter P xs = []"
  by (induction xs) auto

lemma find_tool_Some: "find_tool ts n = Some t \<Longrightarrow> t \<in> set ts \<and> tool_name t = n"
  unfolding find_tool_def by (induction ts) (auto split: if_splits)


lemma text_not_lifecycle:
  "is_text_event ev \<Longrightarrow> \<not> is_run_started ev \<and> \<not> is_run_finished ev \<and> \<not> is_run_error ev"
  by (cases ev) auto

lemma tool_not_lifecycle:
  "tool_call_id_of ev = Some tid \<Longrightarrow> \<not> is_run_started ev \<and> \<not> is_run_finished ev \<and> \<not> is_run_error ev"
  by (cases ev) auto


subsection \<open>The loop of the starter kit\<close>


lemma step_failure:
  assumes "find_tool ts (call_name call) = Some t"
    and "execute t (given_args call) s = (Inl err, s')"
  shows "events (tool_call_step e ts k call s) =
           call_events e k call (truthy (call_args call) \<and> 0 < Object_keys_length (call_args call))
             (JSON_stringify (failure_payload err))"
  using assms by (simp add: tool_call_step_def call_events_def given_args_def Let_def)


lemma step_ids:
  "ev \<in> set (events (tool_call_step e ts k call s)) \<Longrightarrow> tool_call_id_of ev = Some (toolCallId e k)"
  by (auto simp: tool_call_step_def Let_def split: option.splits prod.splits sum.splits if_splits)

lemma step_invocations:
  "invocations (tool_call_step e ts k call s) =
     (if find_tool ts (call_name call) = None then [] else [(call_name call, given_args call)])"
proof (cases "find_tool ts (call_name call)")
  case None
  then show ?thesis by (simp add: tool_call_step_def)
next
  case (Some t)
  then have "tool_name t = call_name call" by (simp add: find_tool_Some)
  then show ?thesis using Some
    by (simp add: tool_call_step_def given_args_def Let_def split: prod.splits sum.splits)
qed

lemma loop_invocations:
  "invocations (tool_loop e ts k calls s) =
     map (\<lambda>call. (call_name call, given_args call))
       (filter (\<lambda>call. find_tool ts (call_name call) \<noteq> None) calls)"
  by (induction calls arbitrary: k s) (simp_all add: Let_def step_invocations)

lemma loop_ids:
  "ev \<in> set (events (tool_loop e ts k calls s)) \<Longrightarrow>
     \<exists>j. k \<le> j \<and> j < k + length calls \<and> tool_call_id_of ev = Some (toolCallId e j)"
proof (induction calls arbitrary: k s)
  case Nil
  then show ?case by simp
next
  case (Cons call rest)
  from Cons.prems consider
      (here) "ev \<in> set (events (tool_call_step e ts k call s))"
    | (later) "ev \<in> set (events (tool_loop e ts (Suc k) rest (app (tool_call_step e ts k call s))))"
    by (auto simp: Let_def)
  then show ?case
  proof cases
    case here
    then have "tool_call_id_of ev = Some (toolCallId e k)" by (rule step_ids)
    then show ?thesis by auto
  next
    case later
    from Cons.IH[OF later] obtain j where "Suc k \<le> j" "j < Suc k + length rest"
      "tool_call_id_of ev = Some (toolCallId e j)" by blast
    then show ?thesis by (intro exI[of _ j]) auto
  qed
qed


lemma word_chunks_text: "ev \<in> set (word_chunks mid response) \<Longrightarrow> is_text_event ev"
  by (auto simp: word_chunks_def split: list.splits)

lemma streamResponse_text: "ev \<in> set (streamResponse llm e prompt executed) \<Longrightarrow> is_text_event ev"
  by (auto simp: streamResponse_def dest: word_chunks_text split: if_splits sum.splits jval.splits)

lemma kit_run_events:
  assumes "\<not> isProcessing agent" and "obj_getToolCalls (llmClient agent) prompt = Inr toolCalls"
  shows "run_events (processPrompt e agent prompt s) =
           [RunStartedEvent (threadId e) (runId e)]
           @ events (tool_loop e (tools agent) 0 toolCalls s)
           @ streamResponse (llmClient agent) e prompt (executedTools (tool_loop e (tools agent) 0 toolCalls s))
           @ [RunFinishedEvent (threadId e) (runId e) ''completed'']"
  using assms by (simp add: processPrompt_def Let_def)



subsection \<open>The loop of the demo\<close>



lemma step_ids_demo:
  "ev \<in> set (events_demo (tool_call_step_demo e ts k call s)) \<Longrightarrow>
     tool_call_id_of ev = Some (toolCallId e k)"
  by (auto simp: tool_call_step_demo_def Let_def split: option.splits prod.splits sum.splits if_splits)

lemma loop_demo_Cons:
  "thrown (tool_call_step_demo e ts k call s) = None \<Longrightarrow>
     events_demo (tool_loop_demo e ts k (call # rest) s) =
       events_demo (tool_call_step_demo e ts k call s)
       @ events_demo (tool_loop_demo e ts (Suc k) rest (app_demo (tool_call_step_demo e ts k call s)))
   \<and> thrown (tool_loop_demo e ts k (call # rest) s) =
       thrown (tool_loop_demo e ts (Suc k) rest (app_demo (tool_call_step_demo e ts k call s)))"
  by (simp add: Let_def)

lemma loop_demo_Cons_thrown:
  "thrown (tool_call_step_demo e ts k call s) = Some err \<Longrightarrow>
     tool_loop_demo e ts k (call # rest) s = tool_call_step_demo e ts k call s"
  by (simp add: Let_def)

lemma loop_ids_demo:
  "ev \<in> set (events_demo (tool_loop_demo e ts k calls s)) \<Longrightarrow>
     \<exists>j. k \<le> j \<and> j < k + length calls \<and> tool_call_id_of ev = Some (toolCallId e j)"
proof (induction calls arbitrary: k s)
  case Nil
  then show ?case by simp
next
  case (Cons call rest)
  let ?p = "tool_call_step_demo e ts k call s"
  show ?case
  proof (cases "thrown ?p")
    case (Some err)
    then have "ev \<in> set (events_demo ?p)" using Cons.prems by (simp only: loop_demo_Cons_thrown)
    then have "tool_call_id_of ev = Some (toolCallId e k)" by (rule step_ids_demo)
    then show ?thesis by auto
  next
    case None
    from Cons.prems consider
        (here) "ev \<in> set (events_demo ?p)"
      | (later) "ev \<in> set (events_demo (tool_loop_demo e ts (Suc k) rest (app_demo ?p)))"
      unfolding conjunct1[OF loop_demo_Cons[OF None]] by auto
    then show ?thesis
    proof cases
      case here
      then have "tool_call_id_of ev = Some (toolCallId e k)" by (rule step_ids_demo)
      then show ?thesis by auto
    next
      case later
      from Cons.IH[OF later] obtain j where "Suc k \<le> j" "j < Suc k + length rest"
        "tool_call_id_of ev = Some (toolCallId e j)" by blast
      then show ?thesis by (intro exI[of _ j]) auto
    qed
  qed
qed


lemma respond_demo_text:
  "ev \<in> set (events_demo (respond_demo e agent toolCalls s)) \<Longrightarrow> is_text_event ev"
  by (auto simp: respond_demo_def dest: word_chunks_text split: if_splits prod.splits jval.splits)

lemma try_block_demo_events:
  assumes "obj_getToolCalls (llmClient_demo agent) prompt = Inr toolCalls"
    and "thrown (tool_loop_demo e (tools_demo agent) 0 toolCalls s) = None"
  shows "events_demo (try_block_demo e agent prompt s) =
           events_demo (tool_loop_demo e (tools_demo agent) 0 toolCalls s)
           @ events_demo (respond_demo e agent toolCalls
                (app_demo (tool_loop_demo e (tools_demo agent) 0 toolCalls s)))"
  using assms by (simp add: try_block_demo_def Let_def)

lemma try_block_demo_kinds:
  assumes "ev \<in> set (events_demo (try_block_demo e agent prompt s))"
  shows "tool_call_id_of ev \<noteq> None \<or> is_text_event ev"
proof (cases "obj_getToolCalls (llmClient_demo agent) prompt")
  case (Inl err)
  then show ?thesis using assms by (simp add: try_block_demo_def)
next
  case (Inr toolCalls)
  let ?p = "tool_loop_demo e (tools_demo agent) 0 toolCalls s"
  show ?thesis
  proof (cases "thrown ?p")
    case (Some err)
    then have "ev \<in> set (events_demo ?p)" using assms Inr by (simp add: try_block_demo_def Let_def)
    from loop_ids_demo[OF this] show ?thesis by auto
  next
    case None
    from assms consider "ev \<in> set (events_demo ?p)"
      | "ev \<in> set (events_demo (respond_demo e agent toolCalls (app_demo ?p)))"
      unfolding try_block_demo_events[OF Inr None] by auto
    then show ?thesis
    proof cases
      case 1
      from loop_ids_demo[OF this] show ?thesis by auto
    next
      case 2
      then show ?thesis by (simp add: respond_demo_text)
    qed
  qed
qed


subsection \<open>Tools keep an invariant of the application through a run of the demo\<close>

lemma step_demo_preserves:
  assumes "\<And>t args s. t \<in> set ts \<Longrightarrow> P s \<Longrightarrow> P (snd (execute t args s))" and "P s"
  shows "P (app_demo (tool_call_step_demo e ts k call s))"
proof (cases "find_tool ts (call_name call)")
  case None
  then show ?thesis using assms(2) by (simp add: tool_call_step_demo_def)
next
  case (Some t)
  then have "t \<in> set ts" by (simp add: find_tool_Some)
  then have "P (snd (execute t (call_args call) s))" using assms by blast
  then show ?thesis using Some
    by (auto simp: tool_call_step_demo_def Let_def split: prod.splits sum.splits)
qed

lemma loop_demo_preserves:
  assumes "\<And>t args s. t \<in> set ts \<Longrightarrow> P s \<Longrightarrow> P (snd (execute t args s))"
  shows "P s \<Longrightarrow> P (app_demo (tool_loop_demo e ts k calls s))"
proof (induction calls arbitrary: k s)
  case Nil
  then show ?case by simp
next
  case (Cons call rest)
  have step: "P (app_demo (tool_call_step_demo e ts k call s))"
    using assms Cons.prems by (rule step_demo_preserves)
  show ?case
  proof (cases "thrown (tool_call_step_demo e ts k call s)")
    case None
    then show ?thesis using Cons.IH[OF step] by (simp add: Let_def)
  next
    case (Some err)
    then show ?thesis using step by (simp add: Let_def)
  qed
qed

lemma gather_preserves:
  assumes "\<And>t args s. t \<in> set ts \<Longrightarrow> P s \<Longrightarrow> P (snd (execute t args s))"
  shows "P s \<Longrightarrow> P (fst (snd (gather ts calls s)))"
proof (induction calls arbitrary: s)
  case Nil
  then show ?case by simp
next
  case (Cons call rest)
  show ?case
  proof (cases "find_tool ts (call_name call)")
    case None
    then show ?thesis using Cons by simp
  next
    case (Some t)
    then have "t \<in> set ts" by (simp add: find_tool_Some)
    then have ex: "P (snd (execute t (call_args call) s))" using assms Cons.prems by blast
    show ?thesis
    proof (cases "execute t (call_args call) s")
      case (Pair r s')
      with ex have s': "P s'" by simp
      show ?thesis
      proof (cases r)
        case (Inl err)
        then show ?thesis using Some Pair s' by simp
      next
        case (Inr result)
        then show ?thesis using Some Pair Cons.IH[OF s']
          by (auto split: prod.splits)
      qed
    qed
  qed
qed

lemma respond_demo_preserves:
  assumes "\<And>t args s. t \<in> set (tools_demo agent) \<Longrightarrow> P s \<Longrightarrow> P (snd (execute t args s))" and "P s"
  shows "P (app_demo (respond_demo e agent toolCalls s))"
proof -
  have "P (fst (snd (gather (tools_demo agent) toolCalls s)))"
    using assms by (rule gather_preserves)
  then show ?thesis using assms(2)
    by (auto simp: respond_demo_def generateIntelligentResponse_demo_def
             split: prod.splits jval.splits)
qed

lemma processPrompt_demo_preserves:
  assumes "\<And>t args s. t \<in> set (tools_demo agent) \<Longrightarrow> P s \<Longrightarrow> P (snd (execute t args s))" and "P s"
  shows "P (run_app_demo (processPrompt_demo e agent prompt s))"
proof (cases "obj_getToolCalls (llmClient_demo agent) prompt")
  case (Inl err)
  then show ?thesis using assms(2) by (simp add: processPrompt_demo_def try_block_demo_def)
next
  case (Inr toolCalls)
  have loop: "P (app_demo (tool_loop_demo e (tools_demo agent) 0 toolCalls s))"
    using assms by (rule loop_demo_preserves)
  have "P (app_demo (respond_demo e agent toolCalls
             (app_demo (tool_loop_demo e (tools_demo agent) 0 toolCalls s))))"
    using assms(1) loop by (rule respond_demo_preserves)
  then show ?thesis using Inr loop
    by (simp add: processPrompt_demo_def try_block_demo_def Let_def split: option.splits)
qed

lemma demo_tools:
  "tools_demo (demo_agent llm e) =
     [\<lparr>tool_name = ''getPortfolio'',
       tool_description = ''Get the current portfolio allocation and performance metrics'',
       execute = getPortfolio_execute e\<rparr>,
      \<lparr>tool_name = ''rebalancePortfolio'',
       tool_description = ''Rebalance the portfolio based on a given strategy (conservative, moderate, aggressive)'',
       execute = rebalancePortfolio_execute e\<rparr>,
      \<lparr>tool_name = ''getRetirementProjection'',
       tool_description = ''Get retirement savings projection based on current portfolio'',
       execute = getRetirementProjection_execute e\<rparr>]"
  by (simp add: demo_agent_def getTools_def registerWithWebMCP_def registerTool_def find_tool_def)

lemma getPortfolio_keeps: "portfolio (snd (getPortfolio_execute e args a)) = portfolio a"
  by (simp add: getPortfolio_execute_def)

lemma getRetirementProjection_keeps:
  "portfolio (snd (getRetirementProjection_execute e args a)) = portfolio a"
  by (simp add: getRetirementProjection_execute_def addToHistory_def Let_def split: sum.splits)

lemma rebalance_object:
  "portfolio (snd (rebalancePortfolio_execute e (JObj kvs) a)) =
     (if map_of kvs ''strategy'' = Some (JStr ''aggressive'') then \<lparr>stocks = 70, bonds = 20, cash = 10\<rparr>
      else if map_of kvs ''strategy'' = Some (JStr ''moderate'') then \<lparr>stocks = 60, bonds = 30, cash = 10\<rparr>
      else \<lparr>stocks = 40, bonds = 40, cash = 20\<rparr>)"
  by (simp add: rebalancePortfolio_execute_def addToHistory_def Let_def split: option.splits)

lemma rebalance_any:
  "portfolio (snd (rebalancePortfolio_execute e args a)) \<in>
     {portfolio a, \<lparr>stocks = 70, bonds = 20, cash = 10\<rparr>, \<lparr>stocks = 60, bonds = 30, cash = 10\<rparr>,
      \<lparr>stocks = 40, bonds = 40, cash = 20\<rparr>}"
  by (simp add: rebalancePortfolio_execute_def addToHistory_def Let_def split: sum.splits)

lemma rebalance_balanced:
  "balanced (portfolio a) \<Longrightarrow> balanced (portfolio (snd (rebalancePortfolio_execute e args a)))"
  using rebalance_any[of e args a] by (auto simp: balanced_def)

subsection \<open>Evaluation\<close>

lemmas run_defs =
  processPrompt_demo_def try_block_demo_def respond_demo_def tool_call_step_demo_def
  generateIntelligentResponse_demo_def executed_text_demo_def
  demo_agent_def LLMClient_object_demo_def getTools_def registerWithWebMCP_def registerTool_def
  find_tool_def getToolCalls_demo_def getToolCallsFromOpenAI_demo_def try_OpenAI_demo_def
  remote_configured_def new_LLMClient_def setApiKey_def llm_with_key_def
  getPortfolio_execute_def rebalancePortfolio_execute_def getRetirementProjection_execute_def
  addToHistory_def new_FidelityApp_def allocation_json_def calculateTotalValue_def getRiskLevel_def
  strategy_args_def env_offline_def env_remote_def aggressive_arguments_def Let_def
  word_chunks_def completed_text_def

lemmas keyword_defs =
  getToolCallsFromKeywords_def getToolCallsFromKeywords_demo_def toLowerCase_def lower_char_def
  test_aggressive_def test_moderate_def test_conservative_def is_digit_def is_space_def

lemmas kit_defs =
  processPrompt_def tool_call_step_def streamResponse_def generateSimpleResponse_def
  failure_payload_def kit_agent_def demo_agent_over_def fixed_resolver_def failing_registry_def
  fail_then_increment_def given_args_def

lemma show_portfolio_calls:
  "getToolCallsFromKeywords_demo ''show my portfolio'' =
     [\<lparr>call_name = ''getPortfolio'', call_args = JUndefined\<rparr>]"
  by (simp add: keyword_defs)


section \<open>The claims\<close>

text \<open>
  C1. Every run of \<open>processPrompt\<close> emits exactly one run-started event and exactly one
  run-finished event, the first event is the run-started one and the last is the
  run-finished one, whether the resolver answers or throws. For the starter kit a call is
  a run when the orchestrator is not busy; the demo starts a run on every call.
\<close>

theorem run_lifecycle:
  "(\<not> isProcessing agent \<longrightarrow>
      length (filter is_run_started (run_events (processPrompt e agent prompt s))) = 1
    \<and> length (filter is_run_finished (run_events (processPrompt e agent prompt s))) = 1
    \<and> is_run_started (hd (run_events (processPrompt e agent prompt s)))
    \<and> is_run_finished (last (run_events (processPrompt e agent prompt s))))
   \<and> length (filter is_run_started (run_events_demo (processPrompt_demo e dagent prompt d))) = 1
   \<and> length (filter is_run_finished (run_events_demo (processPrompt_demo e dagent prompt d))) = 1
   \<and> is_run_started (hd (run_events_demo (processPrompt_demo e dagent prompt d)))
   \<and> is_run_finished (last (run_events_demo (processPrompt_demo e dagent prompt d)))"
proof -
  have kit: "length (filter is_run_started (run_events (processPrompt e agent prompt s))) = 1
    \<and> length (filter is_run_finished (run_events (processPrompt e agent prompt s))) = 1
    \<and> is_run_started (hd (run_events (processPrompt e agent prompt s)))
    \<and> is_run_finished (last (run_events (processPrompt e agent prompt s)))"
    if idle: "\<not> isProcessing agent"
  proof (cases "obj_getToolCalls (llmClient agent) prompt")
    case (Inl err)
    then show ?thesis using idle by (simp add: processPrompt_def)
  next
    case (Inr toolCalls)
    let ?p = "tool_loop e (tools agent) 0 toolCalls s"
    let ?r = "streamResponse (llmClient agent) e prompt (executedTools ?p)"
    have a1: "filter is_run_started (events ?p) = []"
      by (rule filter_none) (auto dest!: loop_ids tool_not_lifecycle)
    have a2: "filter is_run_finished (events ?p) = []"
      by (rule filter_none) (auto dest!: loop_ids tool_not_lifecycle)
    have b1: "filter is_run_started ?r = []"
      by (rule filter_none) (auto dest!: streamResponse_text text_not_lifecycle)
    have b2: "filter is_run_finished ?r = []"
      by (rule filter_none) (auto dest!: streamResponse_text text_not_lifecycle)
    show ?thesis
      unfolding kit_run_events[OF idle Inr] using a1 a2 b1 b2 by simp
  qed
  let ?t = "try_block_demo e dagent prompt d"
  have k: "\<not> is_run_started ev \<and> \<not> is_run_finished ev" if "ev \<in> set (events_demo ?t)" for ev
    using try_block_demo_kinds[OF that] text_not_lifecycle[of ev] tool_not_lifecycle[of ev] by auto
  have c1: "filter is_run_started (events_demo ?t) = []"
    by (rule filter_none) (simp add: k)
  have c2: "filter is_run_finished (events_demo ?t) = []"
    by (rule filter_none) (simp add: k)
  have demo: "length (filter is_run_started (run_events_demo (processPrompt_demo e dagent prompt d))) = 1
   \<and> length (filter is_run_finished (run_events_demo (processPrompt_demo e dagent prompt d))) = 1
   \<and> is_run_started (hd (run_events_demo (processPrompt_demo e dagent prompt d)))
   \<and> is_run_finished (last (run_events_demo (processPrompt_demo e dagent prompt d)))"
    using c1 c2 by (simp add: processPrompt_demo_def Let_def split: option.splits)
  show ?thesis using kit demo by blast
qed

text \<open>
  The theorem at a run whose resolver throws (starter kit) and a run of the demo page.
\<close>

theorem run_lifecycle_witness:
  "\<not> isProcessing (kit_agent (fixed_resolver (Inl (Error ''resolver unavailable''))))
   \<and> run_events (processPrompt env_offline
        (kit_agent (fixed_resolver (Inl (Error ''resolver unavailable'')))) ''show data'' 0) =
       [RunStartedEvent ''thread_1700000000000'' ''run_1700000000000'',
        RunErrorEvent (Some ''thread_1700000000000'') (Some ''run_1700000000000'')
          ''resolver unavailable'' ''PROCESSING_ERROR'',
        RunFinishedEvent ''thread_1700000000000'' ''run_1700000000000'' ''error'']
   \<and> length (filter is_run_started (run_events (processPrompt env_offline
        (kit_agent (fixed_resolver (Inl (Error ''resolver unavailable'')))) ''show data'' 0))) = 1
   \<and> length (filter is_run_finished (run_events (processPrompt env_offline
        (kit_agent (fixed_resolver (Inl (Error ''resolver unavailable'')))) ''show data'' 0))) = 1
   \<and> length (filter is_run_started (run_events_demo (processPrompt_demo env_offline
        (demo_agent new_LLMClient env_offline) ''show my portfolio'' new_FidelityApp))) = 1
   \<and> length (filter is_run_finished (run_events_demo (processPrompt_demo env_offline
        (demo_agent new_LLMClient env_offline) ''show my portfolio'' new_FidelityApp))) = 1"
proof -
  have idle: "\<not> isProcessing (kit_agent (fixed_resolver (Inl (Error ''resolver unavailable''))))"
    by (simp add: kit_agent_def)
  have ev: "run_events (processPrompt env_offline
        (kit_agent (fixed_resolver (Inl (Error ''resolver unavailable'')))) ''show data'' 0) =
       [RunStartedEvent ''thread_1700000000000'' ''run_1700000000000'',
        RunErrorEvent (Some ''thread_1700000000000'') (Some ''run_1700000000000'')
          ''resolver unavailable'' ''PROCESSING_ERROR'',
        RunFinishedEvent ''thread_1700000000000'' ''run_1700000000000'' ''error'']"
    by (simp add: processPrompt_def kit_agent_def fixed_resolver_def env_offline_def)
  show ?thesis
    using idle ev
      run_lifecycle[of "kit_agent (fixed_resolver (Inl (Error ''resolver unavailable'')))"
        env_offline "''show data''" 0 "demo_agent new_LLMClient env_offline" new_FidelityApp]
      run_lifecycle[of "kit_agent (fixed_resolver (Inl (Error ''resolver unavailable'')))"
        env_offline "''show my portfolio''" 0 "demo_agent new_LLMClient env_offline" new_FidelityApp]
    by simp
qed

text \<open>
  C2. When an error escapes the per-tool handling, the claim asks for a run-error event
  with the message and a code, then run-finished with status \<open>error\<close>. The demo does
  otherwise. Its page, with the remote strategy configured and a completion service that
  answers with one call of \<open>rebalancePortfolio\<close> whose arguments text is \<open>null\<close>, starts
  the tool call, the tool throws on \<open>args.strategy\<close>, and the run ends with the
  run-error event followed by run-finished with status \<open>completed\<close>.
\<close>

theorem demo_error_run_reports_completed:
  "getToolCalls_demo llm_with_key (env_remote ''null'') ''make my portfolio riskier'' =
     [\<lparr>call_name = ''rebalancePortfolio'', call_args = JNull\<rparr>]
   \<and> run_events_demo (processPrompt_demo (env_remote ''null'')
        (demo_agent llm_with_key (env_remote ''null'')) ''make my portfolio riskier'' new_FidelityApp) =
     [RunStartedEvent ''thread_1700000000000'' ''run_1700000000000'',
      ToolCallStartEvent ''tool_1700000000000_a'' ''rebalancePortfolio'' ''msg_1700000000000_b'',
      RunErrorEvent None None ''Cannot read properties of null (reading 'strategy')''
        ''EXECUTION_ERROR'',
      RunFinishedEvent ''thread_1700000000000'' ''run_1700000000000'' ''completed'']"
  by (simp add: run_defs)

text \<open>
  The starter kit does what C2 says: a resolver that throws gives run-started, a
  run-error event with the message and the code \<open>PROCESSING_ERROR\<close>, and run-finished
  with status \<open>error\<close>; no tool runs and the application is untouched.
\<close>

theorem kit_resolver_error:
  assumes "\<not> isProcessing agent" and "obj_getToolCalls (llmClient agent) prompt = Inl err"
  shows "run_events (processPrompt e agent prompt s) =
           [RunStartedEvent (threadId e) (runId e),
            RunErrorEvent (Some (threadId e)) (Some (runId e)) (message err) ''PROCESSING_ERROR'',
            RunFinishedEvent (threadId e) (runId e) ''error'']
       \<and> run_invocations (processPrompt e agent prompt s) = []
       \<and> run_app (processPrompt e agent prompt s) = s
       \<and> \<not> isProcessing (run_agent (processPrompt e agent prompt s))"
  using assms by (simp add: processPrompt_def)

theorem kit_resolver_error_witness:
  "\<not> isProcessing (kit_agent (fixed_resolver (Inl (Error ''resolver unavailable''))))
   \<and> obj_getToolCalls (llmClient (kit_agent (fixed_resolver (Inl (Error ''resolver unavailable'')))))
        ''show data'' = Inl (Error ''resolver unavailable'')
   \<and> last (run_events (processPrompt env_offline
        (kit_agent (fixed_resolver (Inl (Error ''resolver unavailable'')))) ''show data'' 7)) =
       RunFinishedEvent ''thread_1700000000000'' ''run_1700000000000'' ''error''
   \<and> run_app (processPrompt env_offline
        (kit_agent (fixed_resolver (Inl (Error ''resolver unavailable'')))) ''show data'' 7) = 7"
proof -
  have idle: "\<not> isProcessing (kit_agent (fixed_resolver (Inl (Error ''resolver unavailable''))))"
    by (simp add: kit_agent_def)
  have thr: "obj_getToolCalls (llmClient (kit_agent (fixed_resolver (Inl (Error ''resolver unavailable'')))))
        ''show data'' = Inl (Error ''resolver unavailable'')"
    by (simp add: kit_agent_def fixed_resolver_def)
  show ?thesis
    using idle thr kit_resolver_error[OF idle thr, of env_offline 7]
    by (simp add: env_offline_def)
qed




text \<open>
  C4. A tool that throws must still get its tool-call-ended and a tool-call-result with
  the failure payload, and the remaining requests must still run. The demo does
  otherwise. Over a registry with a tool that always throws and a tool that counts, and
  the requests \<open>alwaysFail\<close> then \<open>increment\<close>, the demo starts the first tool call and
  ends the run with a run-error event: no tool-call-ended, no tool-call-result, and the
  second tool is never executed. The run still finishes with status \<open>completed\<close>.
\<close>

theorem demo_tool_failure_aborts_loop:
  "run_events_demo (processPrompt_demo env_offline
      (demo_agent_over (fixed_resolver (Inr fail_then_increment))) ''fail, then count'' 0) =
     [RunStartedEvent ''thread_1700000000000'' ''run_1700000000000'',
      ToolCallStartEvent ''tool_1700000000000_a'' ''alwaysFail'' ''msg_1700000000000_b'',
      ToolCallArgsEvent ''tool_1700000000000_a'' (JSON_stringify (JObj [])),
      RunErrorEvent None None ''boom'' ''EXECUTION_ERROR'',
      RunFinishedEvent ''thread_1700000000000'' ''run_1700000000000'' ''completed'']
   \<and> run_invocations_demo (processPrompt_demo env_offline
      (demo_agent_over (fixed_resolver (Inr fail_then_increment))) ''fail, then count'' 0) =
     [(''alwaysFail'', JObj [])]
   \<and> run_app_demo (processPrompt_demo env_offline
      (demo_agent_over (fixed_resolver (Inr fail_then_increment))) ''fail, then count'' 0) = 0"
  by (simp add: run_defs kit_defs)

text \<open>
  The starter kit does what C4 says. A registered tool that throws gets the complete
  sequence with the payload \<open>{error: message, success: false}\<close>; and whenever the resolver
  answers, the run has no run-error event and ends with run-finished \<open>completed\<close>. The
  loop goes on after the failure: every later request whose tool is registered has its
  complete event sequence and its one invocation, as the facts on C3 and C5 say.
\<close>

theorem kit_tool_failure_contained:
  "(find_tool ts (call_name call) = Some t \<and> execute t (given_args call) s0 = (Inl err, s1) \<longrightarrow>
      events (tool_call_step e ts k call s0) =
        call_events e k call (truthy (call_args call) \<and> 0 < Object_keys_length (call_args call))
          (JSON_stringify (JObj [(''error'', JStr (message err)), (''success'', JBool False)])))
   \<and> (\<not> isProcessing agent \<and> obj_getToolCalls (llmClient agent) prompt = Inr toolCalls \<longrightarrow>
      filter is_run_error (run_events (processPrompt e agent prompt s)) = []
      \<and> last (run_events (processPrompt e agent prompt s)) =
          RunFinishedEvent (threadId e) (runId e) ''completed'')"
proof -
  have run: "filter is_run_error (run_events (processPrompt e agent prompt s)) = []
      \<and> last (run_events (processPrompt e agent prompt s)) =
          RunFinishedEvent (threadId e) (runId e) ''completed''"
    if idle: "\<not> isProcessing agent" and ans: "obj_getToolCalls (llmClient agent) prompt = Inr toolCalls"
  proof -
    let ?p = "tool_loop e (tools agent) 0 toolCalls s"
    let ?r = "streamResponse (llmClient agent) e prompt (executedTools ?p)"
    have a: "filter is_run_error (events ?p) = []"
      by (rule filter_none) (auto dest!: loop_ids tool_not_lifecycle)
    have b: "filter is_run_error ?r = []"
      by (rule filter_none) (auto dest!: streamResponse_text text_not_lifecycle)
    show ?thesis unfolding kit_run_events[OF idle ans] using a b by simp
  qed
  show ?thesis
    using run step_failure[of ts call t s0 err s1 e k] by (simp add: failure_payload_def)
qed

theorem kit_tool_failure_contained_witness:
  "find_tool failing_registry (call_name (fail_then_increment ! 0)) \<noteq> None
   \<and> \<not> isProcessing (kit_agent (fixed_resolver (Inr fail_then_increment)))
   \<and> run_events (processPrompt env_offline
      (kit_agent (fixed_resolver (Inr fail_then_increment))) ''fail, then count'' 0) =
     [RunStartedEvent ''thread_1700000000000'' ''run_1700000000000'',
      ToolCallStartEvent ''tool_1700000000000_a'' ''alwaysFail'' ''msg_1700000000000_b'',
      ToolCallEndEvent ''tool_1700000000000_a'',
      ToolCallResultEvent ''msg_1700000000000_b'' ''tool_1700000000000_a''
        (JSON_stringify (JObj [(''error'', JStr ''boom''), (''success'', JBool False)])),
      ToolCallStartEvent ''tool_1700000000000_aa'' ''increment'' ''msg_1700000000000_bb'',
      ToolCallArgsEvent ''tool_1700000000000_aa'' (JSON_stringify (JObj [(''by'', JNum 1)])),
      ToolCallEndEvent ''tool_1700000000000_aa'',
      ToolCallResultEvent ''msg_1700000000000_bb'' ''tool_1700000000000_aa'' (JSON_stringify (JNum 1)),
      TextMessageStartEvent ''response_1700000000000'' ''assistant'',
      TextMessageContentEvent ''response_1700000000000''
        ''I've executed the increment tool for you. The results are displayed in your application above.'',
      TextMessageEndEvent ''response_1700000000000'',
      RunFinishedEvent ''thread_1700000000000'' ''run_1700000000000'' ''completed'']
   \<and> run_app (processPrompt env_offline
      (kit_agent (fixed_resolver (Inr fail_then_increment))) ''fail, then count'' 0) = 1
   \<and> filter is_run_error (run_events (processPrompt env_offline
      (kit_agent (fixed_resolver (Inr fail_then_increment))) ''fail, then count'' 0)) = []"
proof -
  have f: "find_tool failing_registry (call_name (fail_then_increment ! 0)) \<noteq> None"
    by (simp add: kit_defs registerTool_def find_tool_def)
  have a: "\<not> isProcessing (kit_agent (fixed_resolver (Inr fail_then_increment)))"
    by (simp add: kit_agent_def)
  have b: "obj_getToolCalls (llmClient (kit_agent (fixed_resolver (Inr fail_then_increment))))
             ''fail, then count'' = Inr fail_then_increment"
    by (simp add: kit_agent_def fixed_resolver_def)
  have ev: "run_events (processPrompt env_offline
      (kit_agent (fixed_resolver (Inr fail_then_increment))) ''fail, then count'' 0) =
     [RunStartedEvent ''thread_1700000000000'' ''run_1700000000000'',
      ToolCallStartEvent ''tool_1700000000000_a'' ''alwaysFail'' ''msg_1700000000000_b'',
      ToolCallEndEvent ''tool_1700000000000_a'',
      ToolCallResultEvent ''msg_1700000000000_b'' ''tool_1700000000000_a''
        (JSON_stringify (JObj [(''error'', JStr ''boom''), (''success'', JBool False)])),
      ToolCallStartEvent ''tool_1700000000000_aa'' ''increment'' ''msg_1700000000000_bb'',
      ToolCallArgsEvent ''tool_1700000000000_aa'' (JSON_stringify (JObj [(''by'', JNum 1)])),
      ToolCallEndEvent ''tool_1700000000000_aa'',
      ToolCallResultEvent ''msg_1700000000000_bb'' ''tool_1700000000000_aa'' (JSON_stringify (JNum 1)),
      TextMessageStartEvent ''response_1700000000000'' ''assistant'',
      TextMessageContentEvent ''response_1700000000000''
        ''I've executed the increment tool for you. The results are displayed in your application above.'',
      TextMessageEndEvent ''response_1700000000000'',
      RunFinishedEvent ''thread_1700000000000'' ''run_1700000000000'' ''completed'']
   \<and> run_app (processPrompt env_offline
      (kit_agent (fixed_resolver (Inr fail_then_increment))) ''fail, then count'' 0) = 1"
    by (simp add: kit_defs getTools_def registerTool_def find_tool_def env_offline_def Let_def)
  show ?thesis
    using f a b ev
      kit_tool_failure_contained[of "getTools failing_registry" "fail_then_increment ! 0" _ 0 _ _
        env_offline 0 "kit_agent (fixed_resolver (Inr fail_then_increment))" "''fail, then count''"
        fail_then_increment 0]
    by simp
qed

text \<open>
  C5. Each resolved request must cause exactly one invocation of its tool. The demo does
  otherwise when the remote strategy is on: \<open>generateIntelligentResponse\<close> executes every
  request's tool a second time to collect results for the completion request. On the demo
  page, with a completion service that answers with one call of \<open>rebalancePortfolio\<close>,
  the tool is invoked twice and the history of the application has two entries.
\<close>

theorem demo_executes_tool_twice:
  "getToolCalls_demo llm_with_key (env_remote aggressive_arguments) ''be more aggressive'' =
     [\<lparr>call_name = ''rebalancePortfolio'', call_args = strategy_args ''aggressive''\<rparr>]
   \<and> run_invocations_demo (processPrompt_demo (env_remote aggressive_arguments)
        (demo_agent llm_with_key (env_remote aggressive_arguments)) ''be more aggressive'' new_FidelityApp) =
     [(''rebalancePortfolio'', strategy_args ''aggressive''),
      (''rebalancePortfolio'', strategy_args ''aggressive'')]
   \<and> portfolioHistory (run_app_demo (processPrompt_demo (env_remote aggressive_arguments)
        (demo_agent llm_with_key (env_remote aggressive_arguments)) ''be more aggressive'' new_FidelityApp)) =
     [(''10:13:20 PM'', Rebalanced_to (JStr ''aggressive'')),
      (''10:13:20 PM'', Rebalanced_to (JStr ''aggressive''))]"
  by (simp add: run_defs)

text \<open>
  The starter kit does what C5 says: the invocations of a run are, in order, one for each
  resolved request whose tool is registered, with the arguments of that request, whatever
  the strategy that produces the response text.
\<close>

theorem kit_executes_each_tool_once:
  assumes "\<not> isProcessing agent" and "obj_getToolCalls (llmClient agent) prompt = Inr toolCalls"
  shows "run_invocations (processPrompt e agent prompt s) =
           map (\<lambda>call. (call_name call, given_args call))
             (filter (\<lambda>call. find_tool (tools agent) (call_name call) \<noteq> None) toolCalls)"
  using assms by (simp add: processPrompt_def Let_def loop_invocations)

theorem kit_executes_each_tool_once_witness:
  "\<not> isProcessing (kit_agent (fixed_resolver (Inr fail_then_increment)))
   \<and> obj_getToolCalls (llmClient (kit_agent (fixed_resolver (Inr fail_then_increment))))
        ''fail, then count'' = Inr fail_then_increment
   \<and> run_invocations (processPrompt env_offline
        (kit_agent (fixed_resolver (Inr fail_then_increment))) ''fail, then count'' 0) =
       [(''alwaysFail'', JObj []), (''increment'', JObj [(''by'', JNum 1)])]"
proof -
  have a: "\<not> isProcessing (kit_agent (fixed_resolver (Inr fail_then_increment)))"
    by (simp add: kit_agent_def)
  have b: "obj_getToolCalls (llmClient (kit_agent (fixed_resolver (Inr fail_then_increment))))
             ''fail, then count'' = Inr fail_then_increment"
    by (simp add: kit_agent_def fixed_resolver_def)
  show ?thesis
    using a b kit_executes_each_tool_once[OF a b, of env_offline 0]
    by (simp add: kit_defs getTools_def registerTool_def find_tool_def)
qed

text \<open>
  C6. A call made while a run is in progress must yield one busy event and nothing else.
  The demo does otherwise: its orchestrator holds its tools and its resolver and no flag,
  so every call is a run, whatever else is in progress. On the demo page the call for
  \<open>make it more aggressive\<close> yields run-started, the tool-call events, the response and
  run-finished, and it changes the allocation.
\<close>

theorem demo_second_call_runs:
  "run_events_demo (processPrompt_demo env_offline (demo_agent new_LLMClient env_offline)
      ''make it more aggressive'' new_FidelityApp) =
     [RunStartedEvent ''thread_1700000000000'' ''run_1700000000000'',
      ToolCallStartEvent ''tool_1700000000000_a'' ''rebalancePortfolio'' ''msg_1700000000000_b'',
      ToolCallArgsEvent ''tool_1700000000000_a'' (JSON_stringify (JObj [(''strategy'', JStr ''aggressive'')])),
      ToolCallEndEvent ''tool_1700000000000_a'',
      ToolCallResultEvent ''msg_1700000000000_b'' ''tool_1700000000000_a''
        (JSON_stringify (JObj
           [(''oldAllocation'', JObj [(''stocks'', JNum 50), (''bonds'', JNum 30), (''cash'', JNum 20)]),
            (''newAllocation'', JObj [(''stocks'', JNum 70), (''bonds'', JNum 20), (''cash'', JNum 10)]),
            (''strategy'', JStr ''aggressive''), (''totalValue'', JNum 205000),
            (''riskLevel'', JStr ''Aggressive'')])),
      TextMessageStartEvent ''response_1700000000000'' ''assistant'',
      TextMessageContentEvent ''response_1700000000000''
        ''I've executed the following tools for you: rebalancePortfolio. The results are displayed in your portfolio above.'',
      TextMessageEndEvent ''response_1700000000000'',
      RunFinishedEvent ''thread_1700000000000'' ''run_1700000000000'' ''completed'']
   \<and> portfolio (run_app_demo (processPrompt_demo env_offline (demo_agent new_LLMClient env_offline)
      ''make it more aggressive'' new_FidelityApp)) = \<lparr>stocks = 70, bonds = 20, cash = 10\<rparr>"
  by (simp add: run_defs keyword_defs)

text \<open>
  The starter kit does what C6 says: while \<open>isProcessing\<close> is set, a call yields the one
  busy event, invokes no tool, and leaves the application and the orchestrator, its flag
  included, as they were; outside a run the flag is clear again once a run has ended.
\<close>

theorem kit_busy_rejects:
  "(isProcessing agent \<longrightarrow>
      processPrompt e agent prompt s =
        \<lparr>run_events = [CustomEvent ''Agent is already processing a request. Please wait.''],
         run_invocations = [], run_app = s, run_agent = agent\<rparr>)
   \<and> (\<not> isProcessing agent \<longrightarrow> \<not> isProcessing (run_agent (processPrompt e agent prompt s)))"
  by (simp add: processPrompt_def busy_text_def Let_def split: sum.splits)

theorem kit_busy_rejects_witness:
  "isProcessing ((kit_agent (fixed_resolver (Inr fail_then_increment)))\<lparr>isProcessing := True\<rparr>)
   \<and> run_events (processPrompt env_offline
        ((kit_agent (fixed_resolver (Inr fail_then_increment)))\<lparr>isProcessing := True\<rparr>)
        ''fail, then count'' 0) =
       [CustomEvent ''Agent is already processing a request. Please wait.'']
   \<and> run_app (processPrompt env_offline
        ((kit_agent (fixed_resolver (Inr fail_then_increment)))\<lparr>isProcessing := True\<rparr>)
        ''fail, then count'' 0) = 0
   \<and> \<not> isProcessing (run_agent (processPrompt env_offline
        (kit_agent (fixed_resolver (Inr fail_then_increment))) ''fail, then count'' 0))"
  using kit_busy_rejects[of "(kit_agent (fixed_resolver (Inr fail_then_increment)))\<lparr>isProcessing := True\<rparr>"
      env_offline "''fail, then count''" 0]
    kit_busy_rejects[of "kit_agent (fixed_resolver (Inr fail_then_increment))"
      env_offline "''fail, then count''" 0]
  by (simp add: kit_agent_def)





text \<open>
  C9, as amended. Under the local strategy the demo resolves \<open>show my portfolio\<close> to
  exactly one request, \<open>{name: "getPortfolio"}\<close>, which carries no \<open>args\<close> property. Its
  execution succeeds: the run is run-started, tool-call-started, tool-call-ended, a
  tool-call-result carrying the portfolio (allocation 50/30/20, total value 190000, risk
  level Moderate), the start of the text message, one text-message-content naming
  \<open>getPortfolio\<close>, the end of the text message, and run-finished with status
  \<open>completed\<close>. The tool is invoked once, without arguments, and the application is
  unchanged.
\<close>

theorem show_portfolio_run:
  "getToolCalls_demo \<lparr>useRealLLM = False, apiKey = k\<rparr> e ''show my portfolio'' =
     [\<lparr>call_name = ''getPortfolio'', call_args = JUndefined\<rparr>]
   \<and> run_events_demo (processPrompt_demo e (demo_agent \<lparr>useRealLLM = False, apiKey = k\<rparr> e)
        ''show my portfolio'' new_FidelityApp) =
     [RunStartedEvent (threadId e) (runId e),
      ToolCallStartEvent (toolCallId e 0) ''getPortfolio'' (messageId e 0),
      ToolCallEndEvent (toolCallId e 0),
      ToolCallResultEvent (messageId e 0) (toolCallId e 0)
        (JSON_stringify (JObj [(''allocation'', JObj [(''stocks'', JNum 50), (''bonds'', JNum 30), (''cash'', JNum 20)]),
                               (''totalValue'', JNum 190000),
                               (''riskLevel'', JStr ''Moderate''),
                               (''lastUpdated'', JStr (toISOString e))])),
      TextMessageStartEvent (responseMessageId e) ''assistant'',
      TextMessageContentEvent (responseMessageId e)
        ''I've executed the following tools for you: getPortfolio. The results are displayed in your portfolio above.'',
      TextMessageEndEvent (responseMessageId e),
      RunFinishedEvent (threadId e) (runId e) ''completed'']
   \<and> run_invocations_demo (processPrompt_demo e (demo_agent \<lparr>useRealLLM = False, apiKey = k\<rparr> e)
        ''show my portfolio'' new_FidelityApp) = [(''getPortfolio'', JUndefined)]
   \<and> run_app_demo (processPrompt_demo e (demo_agent \<lparr>useRealLLM = False, apiKey = k\<rparr> e)
        ''show my portfolio'' new_FidelityApp) = new_FidelityApp"
  by (simp add: run_defs show_portfolio_calls)

text \<open>
  C9 as stated fails: the request is not \<open>{name: "getPortfolio", args: {}}\<close>, since the
  rule pushes it without \<open>args\<close>.
\<close>

theorem show_portfolio_args_absent:
  "getToolCallsFromKeywords_demo ''show my portfolio'' \<noteq>
     [\<lparr>call_name = ''getPortfolio'', call_args = JObj []\<rparr>]"
  by (simp add: show_portfolio_calls)

text \<open>
  C10. The allocation of the demo application always sums to 100. It starts at 50/30/20;
  \<open>getPortfolio\<close> and \<open>getRetirementProjection\<close> leave it as it is, whatever their
  arguments; \<open>rebalancePortfolio\<close>, for every argument object, replaces it by 70/20/10
  when \<open>strategy\<close> is \<open>aggressive\<close>, by 60/30/10 when it is \<open>moderate\<close> and by 40/40/20
  for every other value, a missing one included; and every run of the demo page, under
  any strategy, any environment and any prompt, leads from an allocation that sums to 100
  to one that does.
\<close>

theorem portfolio_sums_to_100:
  "portfolio new_FidelityApp = \<lparr>stocks = 50, bonds = 30, cash = 20\<rparr>
   \<and> balanced (portfolio new_FidelityApp)
   \<and> portfolio (snd (getPortfolio_execute e args a)) = portfolio a
   \<and> portfolio (snd (getRetirementProjection_execute e args a)) = portfolio a
   \<and> portfolio (snd (rebalancePortfolio_execute e (JObj kvs) a)) =
       (if map_of kvs ''strategy'' = Some (JStr ''aggressive'') then \<lparr>stocks = 70, bonds = 20, cash = 10\<rparr>
        else if map_of kvs ''strategy'' = Some (JStr ''moderate'') then \<lparr>stocks = 60, bonds = 30, cash = 10\<rparr>
        else \<lparr>stocks = 40, bonds = 40, cash = 20\<rparr>)
   \<and> balanced (portfolio (snd (rebalancePortfolio_execute e (JObj kvs) a)))
   \<and> (balanced (portfolio a) \<longrightarrow>
        balanced (portfolio (run_app_demo (processPrompt_demo e (demo_agent llm e) prompt a))))"
proof -
  have inv: "balanced (portfolio (snd (execute t args s)))"
    if "t \<in> set (tools_demo (demo_agent llm e))" and "balanced (portfolio s)" for t args s
    using that
    by (auto simp: demo_tools getPortfolio_keeps getRetirementProjection_keeps rebalance_balanced)
  have run: "balanced (portfolio (run_app_demo (processPrompt_demo e (demo_agent llm e) prompt a)))"
    if "balanced (portfolio a)"
    using processPrompt_demo_preserves[where P = "\<lambda>s. balanced (portfolio s)", OF inv that] by simp
  have reb: "balanced (portfolio (snd (rebalancePortfolio_execute e (JObj kvs) a)))"
    by (simp add: rebalance_object balanced_def)
  show ?thesis
    using run reb
    by (simp add: getPortfolio_keeps getRetirementProjection_keeps rebalance_object)
       (simp add: new_FidelityApp_def balanced_def)
qed

text \<open>
  The theorem at the fresh application and a run that rebalances twice: the remote
  strategy answers with one call of \<open>rebalancePortfolio\<close>, which the demo executes once
  in the loop and once more for the response.
\<close>

theorem portfolio_sums_to_100_witness:
  "balanced (portfolio new_FidelityApp)
   \<and> portfolio (run_app_demo (processPrompt_demo (env_remote aggressive_arguments)
        (demo_agent llm_with_key (env_remote aggressive_arguments)) ''be more aggressive''
        new_FidelityApp)) = \<lparr>stocks = 70, bonds = 20, cash = 10\<rparr>
   \<and> balanced (portfolio (run_app_demo (processPrompt_demo (env_remote aggressive_arguments)
        (demo_agent llm_with_key (env_remote aggressive_arguments)) ''be more aggressive''
        new_FidelityApp)))"
proof -
  have p: "portfolio (run_app_demo (processPrompt_demo (env_remote aggressive_arguments)
        (demo_agent llm_with_key (env_remote aggressive_arguments)) ''be more aggressive''
        new_FidelityApp)) = \<lparr>stocks = 70, bonds = 20, cash = 10\<rparr>"
    by (simp add: run_defs)
  show ?thesis
    using p portfolio_sums_to_100[of "env_remote aggressive_arguments" JUndefined new_FidelityApp "[]"
        llm_with_key "''be more aggressive''"]
    by (simp add: balanced_def)
qed

end
